theory Spec2Isabelle
  imports Complex_Main "HOL-Library.Char_ord" "HOL-Library.List_Lexorder"
begin

section \<open>Conventions of the embedding\<close>

text \<open>
  The module \<^verbatim>\<open>scripts/add_electricity.py\<close> computes on pandas tables of
  floating-point numbers. The embedding models a finite float as a \<^typ>\<open>real\<close>
  (exact arithmetic, no rounding), a missing value (NaN read from a file) as \<open>None\<close>
  of an option type, a table as a list of rows in table order, and every exception or
  process exit of the Python as a value \<open>Inl e\<close> of a sum type.

  A division by zero between numpy or pandas floats does not raise: it produces an
  infinity or NaN. The real numbers have no such value, so the model reports
  \<open>NonFinite\<close> at the places where the Python would produce one. A division between
  plain Python floats raises \<open>ZeroDivisionError\<close>, and the model does the same.
\<close>

datatype error =
    IndexError
  | KeyError
  | ZeroDivisionError
  | SystemExit
  | NonFinite
  | AssertionError
  | NameError

datatype warning =
    NoInitialCapacity
  | AssumingMaxHours6 "string list"

text \<open>Python's \<^verbatim>\<open>int(x)\<close> on a float truncates towards zero.\<close>

definition py_int :: "real \<Rightarrow> int" where
  "py_int x = (if 0 \<le> x then \<lfloor>x\<rfloor> else \<lceil>x\<rceil>)"

section \<open>Regional capacity reconciler (\<^verbatim>\<open>fun_update_elec_capacities\<close>)\<close>

text \<open>
  A row of \<^verbatim>\<open>n.generators\<close>, with the columns the reconciler reads and writes.
  The row label (the generator's name) is the table's index; pandas requires it to be
  unique in \<^verbatim>\<open>n.generators\<close>.
\<close>

record generator =
  name :: string
  p_nom :: real
  p_nom_max :: real

type_synonym dataframe = "generator list"

definition p_nom_sum :: "dataframe \<Rightarrow> real" where
  "p_nom_sum df = sum_list (map p_nom df)"

definition p_nom_max_sum :: "dataframe \<Rightarrow> real" where
  "p_nom_max_sum df = sum_list (map p_nom_max df)"

text \<open>\<^verbatim>\<open>df_updated.loc[:, 'p_nom'] += c\<close> and \<^verbatim>\<open>df_updated.loc[:, 'p_nom'] *= f\<close>.\<close>

definition add_p_nom :: "real \<Rightarrow> dataframe \<Rightarrow> dataframe" where
  "add_p_nom c df = map (\<lambda>g. g\<lparr>p_nom := p_nom g + c\<rparr>) df"

definition scale_p_nom :: "real \<Rightarrow> dataframe \<Rightarrow> dataframe" where
  "scale_p_nom f df = map (\<lambda>g. g\<lparr>p_nom := p_nom g * f\<rparr>) df"

text \<open>
  \<^verbatim>\<open>_update_in_network(df, required_capacity, method_increase)\<close>. The three
  \<^verbatim>\<open>if\<close> statements of the increase branch and the \<^verbatim>\<open>if\<close> of the decrease
  branch test conditions on \<^verbatim>\<open>required_capacity\<close>, \<^verbatim>\<open>initial_capacity\<close> and
  \<^verbatim>\<open>method_increase\<close>, none of which is reassigned, and the conditions exclude one
  another; so the sequence of \<^verbatim>\<open>if\<close>s is the chain below. A method string other than
  the two known ones, or \<^verbatim>\<open>'proportional'\<close> with a negative total, changes nothing.

  The divisor \<^verbatim>\<open>df.shape[0]\<close> is zero only for an empty table, where the addition
  touches no row. The divisor \<^verbatim>\<open>initial_capacity\<close> of the decrease branch can be
  zero (with a target of \<open>-1\<close> or less); on a non-empty table the product is then
  infinite or NaN, which is \<open>NonFinite\<close> here.

  The second component of the result is the list of warnings printed.
\<close>

definition update_in_network ::
  "dataframe \<Rightarrow> real \<Rightarrow> string \<Rightarrow> error + (dataframe \<times> warning list)" where
  "update_in_network df required_capacity method_increase =
     (let initial_capacity = p_nom_sum df in
      if py_int required_capacity > py_int initial_capacity then
        (if method_increase = ''additional'' then
           Inr (add_p_nom ((required_capacity - initial_capacity) / real (length df)) df, [])
         else if method_increase = ''proportional'' \<and> initial_capacity > 0 then
           Inr (scale_p_nom (required_capacity / initial_capacity) df, [])
         else if method_increase = ''proportional'' \<and> initial_capacity = 0 then
           Inr (add_p_nom ((required_capacity - initial_capacity) / real (length df)) df,
                [NoInitialCapacity])
         else Inr (df, []))
      else if py_int required_capacity < py_int initial_capacity then
        (if initial_capacity = 0 \<and> df \<noteq> [] then Inl NonFinite
         else Inr (scale_p_nom (required_capacity / initial_capacity) df, []))
      else Inr (df, []))"

text \<open>
  The rows of \<^verbatim>\<open>df_updated[df_generators_local_cc['p_nom'] > df_updated['p_nom_max']]\<close>:
  the mask compares, row by row, the \<^emph>\<open>original\<close> capacity of the candidate table
  with the bound in \<^verbatim>\<open>df_updated\<close> (both tables have the same index, in the same
  order).
\<close>

definition conflictive_rows :: "dataframe \<Rightarrow> dataframe \<Rightarrow> dataframe" where
  "conflictive_rows df_generators_local_cc df_updated =
     map snd (filter (\<lambda>(g0, g). p_nom g0 > p_nom_max g) (zip df_generators_local_cc df_updated))"

text \<open>\<^verbatim>\<open>df_updated.at[i, 'p_nom'] -= overcapacity\<close>, the label \<open>i\<close> being unique.\<close>

definition sub_at :: "string \<Rightarrow> real \<Rightarrow> dataframe \<Rightarrow> dataframe" where
  "sub_at i c df = map (\<lambda>g. if name g = i then g\<lparr>p_nom := p_nom g - c\<rparr> else g) df"

text \<open>\<^verbatim>\<open>df.drop(i, inplace=True)\<close>; a label that is not in the index raises \<open>KeyError\<close>.\<close>

definition drop_row :: "string \<Rightarrow> dataframe \<Rightarrow> error + dataframe" where
  "drop_row i df =
     (if i \<in> set (map name df) then Inr (filter (\<lambda>g. name g \<noteq> i) df) else Inl KeyError)"

text \<open>
  \<^verbatim>\<open>df_updated.update(df_to_sanitise)\<close>: every row of \<^verbatim>\<open>df_updated\<close> whose label is
  in \<^verbatim>\<open>df_to_sanitise\<close> takes the values of that row.
\<close>

definition update_df :: "dataframe \<Rightarrow> dataframe \<Rightarrow> dataframe" where
  "update_df df other =
     map (\<lambda>h. case find (\<lambda>g. name g = name h) other of None \<Rightarrow> h | Some g \<Rightarrow> g) df"

lemma update_in_network_length:
  "update_in_network df r m = Inr (df', ws) \<Longrightarrow> length df' = length df"
  by (auto simp: update_in_network_def Let_def add_p_nom_def scale_p_nom_def
      split: if_splits)

lemma drop_row_length:
  "drop_row i df = Inr df' \<Longrightarrow> length df' < length df"
proof -
  assume a: "drop_row i df = Inr df'"
  then have mem: "i \<in> set (map name df)" and eq: "df' = filter (\<lambda>g. name g \<noteq> i) df"
    by (auto simp: drop_row_def split: if_splits)
  from mem obtain g where "g \<in> set df" "\<not> name g \<noteq> i" by auto
  then have "length (filter (\<lambda>g. name g \<noteq> i) df) < length df"
    by (rule length_filter_less)
  with eq show ?thesis by simp
qed

text \<open>
  The overflow-repair loop, lines 1105 to 1125:
  \<^verbatim>\<open>
  while (df_updated['p_nom'] > df_updated['p_nom_max']).any():
      index_conflictive = df_updated[df_generators_local_cc['p_nom']>df_updated['p_nom_max']].index[0]
      overcapacity = df_updated.at[index_conflictive,'p_nom'] - df_updated.at[index_conflictive,'p_nom_max']
      df_updated.at[index_conflictive,'p_nom'] -= overcapacity
      df_to_sanitise.drop(index_conflictive, inplace=True)
      required_capacity = df_to_sanitise['p_nom'].sum() + overcapacity
      df_to_sanitise = _update_in_network(df_to_sanitise, required_capacity, method_increase)
      df_updated.update(df_to_sanitise)
  \<close>
  \<^verbatim>\<open>.index[0]\<close> of an empty selection raises \<open>IndexError\<close>. The state of the loop is
  \<^verbatim>\<open>df_updated\<close>, \<^verbatim>\<open>df_to_sanitise\<close> and the warnings printed so far.
\<close>

function repair_loop ::
  "dataframe \<Rightarrow> string \<Rightarrow> dataframe \<Rightarrow> dataframe \<Rightarrow> warning list
     \<Rightarrow> error + (dataframe \<times> warning list)" where
  "repair_loop df_generators_local_cc method_increase df_updated df_to_sanitise ws =
     (if \<not> list_ex (\<lambda>g. p_nom g > p_nom_max g) df_updated then Inr (df_updated, ws)
      else
        (case conflictive_rows df_generators_local_cc df_updated of
           [] \<Rightarrow> Inl IndexError
         | c # _ \<Rightarrow>
             (let index_conflictive = name c;
                  overcapacity = p_nom c - p_nom_max c;
                  df_updated1 = sub_at index_conflictive overcapacity df_updated
              in case drop_row index_conflictive df_to_sanitise of
                   Inl e \<Rightarrow> Inl e
                 | Inr dropped \<Rightarrow>
                     (case update_in_network dropped (p_nom_sum dropped + overcapacity)
                             method_increase of
                        Inl e \<Rightarrow> Inl e
                      | Inr (df_to_sanitise1, ws1) \<Rightarrow>
                          repair_loop df_generators_local_cc method_increase
                            (update_df df_updated1 df_to_sanitise1) df_to_sanitise1
                            (ws @ ws1)))))"
  by pat_completeness auto
termination
proof (relation "measure (\<lambda>(d0, m, u, s, ws). length s)", goal_cases)
  case 1
  show ?case by simp
next
  case (2 d0 m u s ws c cs ic oc u1 dropped x s1 ws1)
  then show ?case
    using update_in_network_length drop_row_length by fastforce
qed

declare repair_loop.simps [simp del]

text \<open>
  The processing of one region \<open>rr\<close> and one carrier \<open>cc\<close> once a non-empty candidate
  table \<^verbatim>\<open>df_generators_local_cc\<close> and the target \<^verbatim>\<open>required_capacity\<close> are known
  (lines 1086 to 1125): the first update, the check that exits the process, and the
  loop. The result is the table written back with \<^verbatim>\<open>n.generators.update(df_updated)\<close>.
\<close>

definition update_elec_capacities_pair ::
  "dataframe \<Rightarrow> real \<Rightarrow> string \<Rightarrow> error + (dataframe \<times> warning list)" where
  "update_elec_capacities_pair df_generators_local_cc required_capacity method_increase =
     (case update_in_network df_generators_local_cc required_capacity method_increase of
        Inl e \<Rightarrow> Inl e
      | Inr (df_updated, ws) \<Rightarrow>
          if p_nom_sum df_updated > p_nom_max_sum df_updated then Inl SystemExit
          else repair_loop df_generators_local_cc method_increase df_updated df_updated ws)"

section \<open>Area-overlap transfer builder (\<^verbatim>\<open>shapes_to_shapes\<close>)\<close>

text \<open>
  The polygons and their operations come from the shapely library, which is not part of
  the repository. The three operations the builder calls are parameters of the model:
  \<open>intersects a b\<close> is \<^verbatim>\<open>prep(a).intersects(b)\<close>, \<open>intersection_area a b\<close> is
  \<^verbatim>\<open>a.intersection(b).area\<close> and \<open>area a\<close> is \<^verbatim>\<open>a.area\<close>. Areas are plain Python
  floats, so dividing by a zero area raises \<open>ZeroDivisionError\<close>.
\<close>

record 'p shapely =
  intersects :: "'p \<Rightarrow> 'p \<Rightarrow> bool"
  intersection_area :: "'p \<Rightarrow> 'p \<Rightarrow> real"
  area :: "'p \<Rightarrow> real"

text \<open>The first error of a list of results, in order, or all the values.\<close>

fun collect :: "(error + 'a) list \<Rightarrow> error + 'a list" where
  "collect [] = Inr []"
| "collect (Inl e # rs) = Inl e"
| "collect (Inr v # rs) = (case collect rs of Inl e \<Rightarrow> Inl e | Inr vs \<Rightarrow> Inr (v # vs))"

text \<open>
  One pass of the loop body for the target \<open>d = dest.iloc[i]\<close> and the source
  \<open>s = orig.iloc[j]\<close>; an entry that is not assigned keeps the 0 of the fresh matrix.
\<close>

definition transfer_entry :: "'p shapely \<Rightarrow> 'p \<Rightarrow> 'p \<Rightarrow> error + real" where
  "transfer_entry G s d =
     (if intersects G s d then
        (if area G d = 0 then Inl ZeroDivisionError
         else Inr (intersection_area G s d / area G d))
      else Inr 0)"

text \<open>
  \<^verbatim>\<open>shapes_to_shapes(orig, dest)\<close>: the matrix as the list of its rows, one row per
  target polygon, one entry per source polygon, filled in the order of
  \<^verbatim>\<open>product(range(len(dest)), range(len(orig)))\<close>.
\<close>

definition shapes_to_shapes :: "'p shapely \<Rightarrow> 'p list \<Rightarrow> 'p list \<Rightarrow> error + real list list" where
  "shapes_to_shapes G orig dest =
     collect (map (\<lambda>d. collect (map (\<lambda>s. transfer_entry G s d) orig)) dest)"

text \<open>
  Axis-aligned rectangles, a family of polygons on which the three operations have
  closed forms; they serve as concrete inputs.
\<close>

record box =
  x_min :: real
  y_min :: real
  x_max :: real
  y_max :: real

definition box_shapely :: "box shapely" where
  "box_shapely =
     \<lparr>intersects = (\<lambda>a b. max (x_min a) (x_min b) \<le> min (x_max a) (x_max b)
                           \<and> max (y_min a) (y_min b) \<le> min (y_max a) (y_max b)),
      intersection_area = (\<lambda>a b. max 0 (min (x_max a) (x_max b) - max (x_min a) (x_min b))
                                  * max 0 (min (y_max a) (y_max b) - max (y_min a) (y_min b))),
      area = (\<lambda>a. (x_max a - x_min a) * (y_max a - y_min a))\<rparr>"

section \<open>Spatial load disaggregator (\<^verbatim>\<open>attach_load\<close>, \<^verbatim>\<open>attach_load_vPyPSA_Spain\<close>)\<close>

text \<open>
  \<^verbatim>\<open>normed(s) = s / s.sum()\<close> on a pandas series. With a zero sum the quotient of a
  non-empty series is NaN or infinite (\<open>NonFinite\<close>); no exception is raised, and the
  caller may still discard the value.
\<close>

definition normed :: "real list \<Rightarrow> error + real list" where
  "normed s = (if s \<noteq> [] \<and> sum_list s = 0 then Inl NonFinite
               else Inr (map (\<lambda>x. x / sum_list s) s))"

text \<open>
  \<^verbatim>\<open>normed(w_gdp * normed(gdp) + w_pop * normed(pop))\<close>; the two series have the same
  index, so the sum is taken entry by entry.
\<close>

definition weighted_factors :: "real \<Rightarrow> real \<Rightarrow> real list \<Rightarrow> real list \<Rightarrow> error + real list" where
  "weighted_factors w_gdp w_pop gdp pop =
     (case normed gdp of
        Inl e \<Rightarrow> Inl e
      | Inr g \<Rightarrow>
          (case normed pop of
             Inl e \<Rightarrow> Inl e
           | Inr p \<Rightarrow> normed (map2 (\<lambda>a b. w_gdp * a + w_pop * b) g p)))"

text \<open>A row of the NUTS3 table: its index (the NUTS3 code) and its columns.\<close>

record 'p nuts3_row =
  nuts3_index :: string
  nuts3_country :: string
  nuts3_gdp :: "real option"
  nuts3_pop :: "real option"
  nuts3_geometry :: "'p"

definition fillna :: "real \<Rightarrow> real option \<Rightarrow> real" where
  "fillna v x = (case x of None \<Rightarrow> v | Some y \<Rightarrow> y)"

text \<open>
  \<^verbatim>\<open>transfer.dot(values)\<close> for \<^verbatim>\<open>transfer = shapes_to_shapes(group, ...).T\<close>: one
  entry per bus of the group, the sum over the NUTS3 rows of (matrix entry) \<open>\<times>\<close> (value).
  Every row of the matrix has one entry per bus.
\<close>

definition transfer_dot :: "real list list \<Rightarrow> real list \<Rightarrow> nat \<Rightarrow> real list" where
  "transfer_dot transfer vals n =
     map (\<lambda>j. sum_list (map2 (\<lambda>row x. row ! j * x) transfer vals)) [0..<n]"

text \<open>
  The series \<^verbatim>\<open>gdp_n\<close> and \<^verbatim>\<open>pop_n\<close> of a group of buses, \<open>grp\<close> (the source's
  \<^verbatim>\<open>group\<close>: the bus labels with their shapes), against a selection of NUTS3 rows
  (lines 318 to 324, and again lines 435 to 445).
\<close>

definition gdp_pop_n ::
  "'p shapely \<Rightarrow> (string \<times> 'p) list \<Rightarrow> 'p nuts3_row list \<Rightarrow> error + (real list \<times> real list)" where
  "gdp_pop_n G grp nuts3_sel =
     (case shapes_to_shapes G (map snd grp) (map nuts3_geometry nuts3_sel) of
        Inl e \<Rightarrow> Inl e
      | Inr transfer \<Rightarrow>
          Inr (transfer_dot transfer (map (\<lambda>r. fillna 1 (nuts3_gdp r)) nuts3_sel) (length grp),
               transfer_dot transfer (map (\<lambda>r. fillna 1 (nuts3_pop r)) nuts3_sel) (length grp)))"

text \<open>A row of the table \<^verbatim>\<open>gdp_pop_non_nuts3\<close>, indexed by bus.\<close>

record non_nuts3_row =
  nn_bus :: string
  nn_country :: string
  nn_gdp :: real
  nn_pop :: real

text \<open>
  A table of loads: the column labels and one row per timestamp.
  \<^verbatim>\<open>pd.DataFrame(factors.values * load.values[:, np.newaxis], ...)\<close> is \<open>outer\<close>.
\<close>

type_synonym frame = "string list \<times> real list list"

definition outer :: "real list \<Rightarrow> real list \<Rightarrow> real list list" where
  "outer factors load = map (\<lambda>l. map (\<lambda>f. f * l) factors) load"

text \<open>
  Lines 305 to 308 of \<^verbatim>\<open>attach_load\<close>: the load file restricted to the configured
  countries and multiplied by \<^verbatim>\<open>scaling\<close>.
\<close>

definition scaled_load ::
  "real \<Rightarrow> string list \<Rightarrow> (string \<rightharpoonup> real list) \<Rightarrow> (string \<rightharpoonup> real list)" where
  "scaled_load scaling countries load_csv =
     (\<lambda>c. if c \<in> set countries then map_option (map (\<lambda>x. x * scaling)) (load_csv c) else None)"

text \<open>
  The factors of \<^verbatim>\<open>upsample\<close> in \<^verbatim>\<open>attach_load\<close> for a group that is not a single
  bus (lines 317 to 354), with the labels of the factor series. The factors of lines 331
  to 339 are computed for every country and then replaced for \<^verbatim>\<open>UA\<close> and \<^verbatim>\<open>MD\<close>.
\<close>

definition upsample_factors ::
  "'p shapely \<Rightarrow> bool \<Rightarrow> string list \<Rightarrow> 'p nuts3_row list \<Rightarrow> non_nuts3_row list
     \<Rightarrow> string \<Rightarrow> (string \<times> 'p) list \<Rightarrow> error + (string list \<times> real list)" where
  "upsample_factors G update_gdp_pop substation_lv_i nuts3 gdp_pop_non_nuts3 cntry grp =
     (let nuts3_cntry = filter (\<lambda>r. nuts3_country r = cntry) nuts3 in
      case gdp_pop_n G grp nuts3_cntry of
        Inl e \<Rightarrow> Inl e
      | Inr (gdp_n, pop_n) \<Rightarrow>
          (let factors =
                 (if update_gdp_pop \<and> cntry = ''ES''
                  then weighted_factors (18 / 100) (82 / 100) gdp_n pop_n
                  else weighted_factors (6 / 10) (4 / 10) gdp_n pop_n)
           in if cntry \<in> set [''UA'', ''MD''] then
                (let rows = filter (\<lambda>r. nn_country r = cntry \<and> nn_bus r \<in> set substation_lv_i)
                              gdp_pop_non_nuts3
                 in case weighted_factors (6 / 10) (4 / 10) (map nn_gdp rows) (map nn_pop rows) of
                      Inl e \<Rightarrow> Inl e
                    | Inr f \<Rightarrow> Inr (map nn_bus rows, f))
              else
                (case factors of
                   Inl e \<Rightarrow> Inl e
                 | Inr f \<Rightarrow> Inr (map fst grp, f))))"

text \<open>
  \<^verbatim>\<open>upsample(cntry, group, gdp_pop_non_nuts3)\<close> of \<^verbatim>\<open>attach_load\<close> (national mode).
  \<^verbatim>\<open>opsd_load[cntry]\<close> raises \<open>KeyError\<close> for a country without a column.
\<close>

definition upsample ::
  "'p shapely \<Rightarrow> bool \<Rightarrow> string list \<Rightarrow> (string \<rightharpoonup> real list) \<Rightarrow> 'p nuts3_row list
     \<Rightarrow> non_nuts3_row list \<Rightarrow> string \<Rightarrow> (string \<times> 'p) list \<Rightarrow> error + frame" where
  "upsample G update_gdp_pop substation_lv_i opsd_load nuts3 gdp_pop_non_nuts3 cntry grp =
     (case opsd_load cntry of
        None \<Rightarrow> Inl KeyError
      | Some load \<Rightarrow>
          (case grp of
             [(bus, shape)] \<Rightarrow> Inr ([bus], map (\<lambda>l. [l]) load)
           | _ \<Rightarrow>
             (case upsample_factors G update_gdp_pop substation_lv_i nuts3 gdp_pop_non_nuts3
                     cntry grp of
                Inl e \<Rightarrow> Inl e
              | Inr (cols, factors) \<Rightarrow> Inr (cols, outer factors load))))"

text \<open>
  Regional mode, \<^verbatim>\<open>upsample\<close> of \<^verbatim>\<open>attach_load_vPyPSA_Spain\<close>: the factors of the
  group for the region \<^verbatim>\<open>rr_ID\<close> (lines 430 to 458). The NUTS3 rows of the region are
  those whose code contains \<^verbatim>\<open>rr_ID\<close>; the test is a parameter \<open>contains\<close>
  (\<^verbatim>\<open>Series.str.contains\<close>, a regular-expression search of pandas).
\<close>

definition upsample_rr_factors ::
  "'p shapely \<Rightarrow> (string \<Rightarrow> string \<Rightarrow> bool) \<Rightarrow> bool \<Rightarrow> 'p nuts3_row list
     \<Rightarrow> (string \<times> 'p) list \<Rightarrow> string \<Rightarrow> error + real list" where
  "upsample_rr_factors G contains update_gdp_pop nuts3 grp rr_ID =
     (let nuts3_rr = filter (\<lambda>r. contains (nuts3_index r) rr_ID) nuts3 in
      case gdp_pop_n G grp nuts3_rr of
        Inl e \<Rightarrow> Inl e
      | Inr (gdp_n, pop_n) \<Rightarrow>
          (if update_gdp_pop
           then weighted_factors (18 / 100) (82 / 100) gdp_n pop_n
           else weighted_factors (6 / 10) (4 / 10) gdp_n pop_n))"

text \<open>\<^verbatim>\<open>return_total += return_rr\<close> on two tables with the same labels.\<close>

definition add_frames :: "real list list \<Rightarrow> real list list \<Rightarrow> real list list" where
  "add_frames a b = map2 (\<lambda>ra rb. map2 (\<lambda>x y. x + y) ra rb) a b"

text \<open>
  The loop over the columns \<^verbatim>\<open>rr_ID\<close> of the regional load table (lines 422 to 487),
  each column given with its label, from the running \<^verbatim>\<open>return_total\<close>.
\<close>

fun upsample_regions ::
  "'p shapely \<Rightarrow> (string \<Rightarrow> string \<Rightarrow> bool) \<Rightarrow> bool \<Rightarrow> 'p nuts3_row list
     \<Rightarrow> (string \<times> 'p) list \<Rightarrow> (string \<times> real list) list \<Rightarrow> real list list
     \<Rightarrow> error + real list list" where
  "upsample_regions G contains update_gdp_pop nuts3 grp [] return_total = Inr return_total"
| "upsample_regions G contains update_gdp_pop nuts3 grp ((rr_ID, load) # columns) return_total =
     (case upsample_rr_factors G contains update_gdp_pop nuts3 grp rr_ID of
        Inl e \<Rightarrow> Inl e
      | Inr factors \<Rightarrow>
          upsample_regions G contains update_gdp_pop nuts3 grp columns
            (add_frames return_total (outer factors load)))"

text \<open>
  \<^verbatim>\<open>upsample(cntry, group)\<close> of \<^verbatim>\<open>attach_load_vPyPSA_Spain\<close>: \<^verbatim>\<open>return_total\<close>
  starts as zeros, one row for each of the \<open>n_time\<close> timestamps of the load table and
  one column for each bus of the group. The country \<^verbatim>\<open>cntry\<close> is not used.
\<close>

definition upsample_vPyPSA_Spain ::
  "'p shapely \<Rightarrow> (string \<Rightarrow> string \<Rightarrow> bool) \<Rightarrow> bool \<Rightarrow> 'p nuts3_row list
     \<Rightarrow> nat \<Rightarrow> (string \<times> real list) list \<Rightarrow> string \<Rightarrow> (string \<times> 'p) list \<Rightarrow> error + frame" where
  "upsample_vPyPSA_Spain G contains update_gdp_pop nuts3 n_time opsd_load cntry grp =
     (case upsample_regions G contains update_gdp_pop nuts3 grp opsd_load
             (replicate n_time (replicate (length grp) 0)) of
        Inl e \<Rightarrow> Inl e
      | Inr return_total \<Rightarrow> Inr (map fst grp, return_total))"

text \<open>
  The formula of the specification, on plain vectors:
  \<open>normalize(v) = v / sum(v)\<close> and
  \<open>factor = normalize(w_gdp \<cdot> normalize(gdp_n) + w_pop \<cdot> normalize(pop_n))\<close>.
\<close>

definition spec_normalize :: "real list \<Rightarrow> real list" where
  "spec_normalize v = map (\<lambda>x. x / sum_list v) v"

definition spec_factor :: "real \<Rightarrow> real \<Rightarrow> real list \<Rightarrow> real list \<Rightarrow> real list" where
  "spec_factor w_gdp w_pop gdp_n pop_n =
     spec_normalize (map2 (\<lambda>a b. w_gdp * a + w_pop * b)
                       (spec_normalize gdp_n) (spec_normalize pop_n))"

section \<open>Storage duration of reservoir plants (\<^verbatim>\<open>attach_hydro\<close>)\<close>

text \<open>
  The hydro statistics and the estimates derived from them are float columns in which
  a missing value is NaN and a division by zero gives an infinity or NaN; all of these
  reach the lines this section models, so the values are made explicit.
\<close>

datatype fval = Fin real | PInf | NInf | NaN

text \<open>Division of two finite floats as numpy does it.\<close>

definition fdiv :: "real \<Rightarrow> real \<Rightarrow> fval" where
  "fdiv a b = (if b \<noteq> 0 then Fin (a / b)
               else if 0 < a then PInf else if a < 0 then NInf else NaN)"

text \<open>\<^verbatim>\<open>max_hours_country.clip(0, inplace=True)\<close>: NaN stays NaN.\<close>

definition clip0 :: "fval \<Rightarrow> fval" where
  "clip0 v = (case v of Fin x \<Rightarrow> Fin (max 0 x) | PInf \<Rightarrow> PInf | NInf \<Rightarrow> Fin 0 | NaN \<Rightarrow> NaN)"

text \<open>
  A reservoir plant (a row of \<^verbatim>\<open>hydro\<close>) and a row of the statistics file
  \<^verbatim>\<open>hydro_capacities\<close> (indexed by country; \<^verbatim>\<open>-\<close> is read as NaN).
\<close>

record hydro_plant =
  hp_country :: string
  hp_p_nom :: real
  hp_max_hours :: "real option"

record hydro_stat =
  E_store_TWh :: "real option"
  p_nom_discharge_GW :: "real option"

text \<open>
  Lines 782 to 796. A label that is missing from one operand of a pandas operation
  gives NaN, as a NaN operand does.
  \<^item> \<^verbatim>\<open>e_target = hydro_stats["E_store[TWh]"].clip(lower=0.2) * 1e6\<close>;
  \<^item> \<^verbatim>\<open>e_installed\<close>: per country of \<^verbatim>\<open>hydro\<close>, the sum of \<^verbatim>\<open>p_nom * max_hours\<close>
    over the plants that have a \<^verbatim>\<open>max_hours\<close> (the sum skips NaN);
  \<^item> the divisor of the first estimator: per country, the sum of \<^verbatim>\<open>p_nom\<close> over the
    plants without \<^verbatim>\<open>max_hours\<close>, for the countries that have such a plant.
\<close>

definition e_target :: "(string \<rightharpoonup> hydro_stat) \<Rightarrow> string \<Rightarrow> real option" where
  "e_target hydro_stats c =
     (case hydro_stats c of
        None \<Rightarrow> None
      | Some st \<Rightarrow> map_option (\<lambda>e. max (2 / 10) e * 1000000) (E_store_TWh st))"

definition e_installed :: "hydro_plant list \<Rightarrow> string \<Rightarrow> real option" where
  "e_installed hydro c =
     (if c \<in> set (map hp_country hydro)
      then Some (sum_list (map (\<lambda>p. case hp_max_hours p of None \<Rightarrow> 0
                                                        | Some h \<Rightarrow> hp_p_nom p * h)
                             (filter (\<lambda>p. hp_country p = c) hydro)))
      else None)"

definition p_nom_missing :: "hydro_plant list \<Rightarrow> string \<Rightarrow> real option" where
  "p_nom_missing hydro c =
     (let missing = filter (\<lambda>p. hp_max_hours p = None \<and> hp_country p = c) hydro
      in if missing = [] then None else Some (sum_list (map hp_p_nom missing)))"

definition max_hours_country ::
  "string \<Rightarrow> (string \<rightharpoonup> hydro_stat) \<Rightarrow> hydro_plant list \<Rightarrow> error + (string \<Rightarrow> fval)" where
  "max_hours_country hydro_max_hours hydro_stats hydro =
     (if hydro_max_hours = ''energy_capacity_totals_by_country'' then
        Inr (\<lambda>c. case (e_target hydro_stats c, e_installed hydro c, p_nom_missing hydro c) of
                   (Some t, Some i, Some p) \<Rightarrow> fdiv (t - i) p
                 | _ \<Rightarrow> NaN)
      else if hydro_max_hours = ''estimate_by_large_installations'' then
        Inr (\<lambda>c. case hydro_stats c of
                   None \<Rightarrow> NaN
                 | Some st \<Rightarrow>
                     (case (E_store_TWh st, p_nom_discharge_GW st) of
                        (Some e, Some p) \<Rightarrow> fdiv (e * 1000) p
                      | _ \<Rightarrow> NaN))
      else Inl NameError)"

text \<open>
  Lines 775 to 809 of \<^verbatim>\<open>attach_hydro\<close>: the \<^verbatim>\<open>max_hours\<close> given to the storage
  units, one per row of \<^verbatim>\<open>hydro\<close>, and the warnings logged. A configuration without
  \<^verbatim>\<open>hydro_max_hours\<close> fails the assertion; a value that names neither estimator leaves
  \<^verbatim>\<open>max_hours_country\<close> unbound. \<^verbatim>\<open>missing_countries\<close> is the sorted list of the
  countries of \<^verbatim>\<open>hydro\<close> without an estimate:
  \<^verbatim>\<open>
  max_hours_country.clip(0, inplace=True)
  missing_countries = pd.Index(hydro["country"].unique()).difference(
      max_hours_country.dropna().index)
  if not missing_countries.empty:
      logger.warning(...)
  hydro_max_hours = hydro.max_hours.where(
      hydro.max_hours > 0, hydro.country.map(max_hours_country)).fillna(6)
  \<close>
\<close>

definition hydro_max_hours ::
  "string option \<Rightarrow> (string \<rightharpoonup> hydro_stat) \<Rightarrow> hydro_plant list
     \<Rightarrow> error + (fval list \<times> warning list)" where
  "hydro_max_hours param hydro_stats hydro =
     (case param of
        None \<Rightarrow> Inl AssertionError
      | Some method \<Rightarrow>
          (case max_hours_country method hydro_stats hydro of
             Inl e \<Rightarrow> Inl e
           | Inr estimate \<Rightarrow>
               (let clipped = (\<lambda>c. clip0 (estimate c));
                    missing_countries =
                      sort (remdups (filter (\<lambda>c. clipped c = NaN) (map hp_country hydro)))
                in Inr (map (\<lambda>p. let mapped = clipped (hp_country p);
                                      kept = (case hp_max_hours p of
                                                None \<Rightarrow> mapped
                                              | Some h \<Rightarrow> if 0 < h then Fin h else mapped)
                                  in if kept = NaN then Fin 6 else kept) hydro,
                        if missing_countries = [] then []
                        else [AssumingMaxHours6 missing_countries]))))"

section \<open>Properties of the reconciler\<close>

lemma py_int_close: "py_int a = py_int b \<Longrightarrow> \<bar>a - b\<bar> < 2"
  unfolding py_int_def by (auto split: if_splits; linarith)

text \<open>
  Claim C10. The update rule compares the target and the current total only after
  truncation to integers: whenever \<^verbatim>\<open>int(required_capacity) == int(initial_capacity)\<close>
  the table is returned unchanged (and nothing is printed), although the two real values
  may differ, by less than 2.
\<close>

theorem update_in_network_int_equal_unchanged:
  "py_int required_capacity = py_int (p_nom_sum df) \<Longrightarrow>
   update_in_network df required_capacity method_increase = Inr (df, [])
   \<and> \<bar>required_capacity - p_nom_sum df\<bar> < 2"
  using py_int_close [of required_capacity "p_nom_sum df"]
  by (simp add: update_in_network_def)

theorem update_in_network_int_equal_unchanged_witness:
  "py_int (59 / 10) =
     py_int (p_nom_sum [\<lparr>name = ''g1'', p_nom = 2, p_nom_max = 50\<rparr>,
                        \<lparr>name = ''g2'', p_nom = 3, p_nom_max = 20\<rparr>])
   \<and> update_in_network [\<lparr>name = ''g1'', p_nom = 2, p_nom_max = 50\<rparr>,
                        \<lparr>name = ''g2'', p_nom = 3, p_nom_max = 20\<rparr>] (59 / 10) ''additional''
       = Inr ([\<lparr>name = ''g1'', p_nom = 2, p_nom_max = 50\<rparr>,
               \<lparr>name = ''g2'', p_nom = 3, p_nom_max = 20\<rparr>], [])
   \<and> (59 / 10 :: real) \<noteq> 5"
  using update_in_network_int_equal_unchanged
    [of "59 / 10" "[\<lparr>name = ''g1'', p_nom = 2, p_nom_max = 50\<rparr>,
                    \<lparr>name = ''g2'', p_nom = 3, p_nom_max = 20\<rparr>]" "''additional''"]
  by (simp add: py_int_def p_nom_sum_def)

text \<open>
  Claim C1. The spec's own scenario for the overflow repair: three generators with
  \<open>(p_nom, p_nom_max)\<close> = (10, 50), (10, 20), (10, 15), target 61 (below the combined
  bound 85), method \<^verbatim>\<open>'proportional'\<close>. The first update gives 61/3 to each, the
  second and third generators are over their bounds and the loop is entered; its mask
  compares the original capacities (10, 10, 10) with the bounds, selects no row, and
  \<^verbatim>\<open>.index[0]\<close> raises \<open>IndexError\<close>. No capacities are produced.
\<close>

theorem repair_loop_spec_scenario_IndexError:
  "update_elec_capacities_pair
     [\<lparr>name = ''g1'', p_nom = 10, p_nom_max = 50\<rparr>,
      \<lparr>name = ''g2'', p_nom = 10, p_nom_max = 20\<rparr>,
      \<lparr>name = ''g3'', p_nom = 10, p_nom_max = 15\<rparr>] 61 ''proportional''
   = Inl IndexError"
  by (simp add: update_elec_capacities_pair_def update_in_network_def p_nom_sum_def
      p_nom_max_sum_def py_int_def scale_p_nom_def conflictive_rows_def repair_loop.simps)

lemma py_int_mono: "a \<le> b \<Longrightarrow> py_int a \<le> py_int b"
proof -
  assume ab: "a \<le> b"
  consider "0 \<le> a" | "b < 0" | "a < 0" "0 \<le> b" by linarith
  then show ?thesis
  proof cases
    case 1
    with ab show ?thesis by (simp add: py_int_def floor_mono)
  next
    case 2
    with ab show ?thesis by (simp add: py_int_def ceiling_mono)
  next
    case 3
    have "\<lceil>a\<rceil> \<le> 0" using 3 by (simp add: ceiling_le_zero)
    moreover have "0 \<le> \<lfloor>b\<rfloor>" using 3 by simp
    ultimately have "\<lceil>a\<rceil> \<le> \<lfloor>b\<rfloor>" by linarith
    with 3 show ?thesis by (simp add: py_int_def)
  qed
qed

lemma update_in_network_p_nom_max:
  "update_in_network df r m = Inr (df', ws) \<Longrightarrow> map p_nom_max df' = map p_nom_max df"
  by (auto simp: update_in_network_def Let_def add_p_nom_def scale_p_nom_def
      split: if_splits)

lemma conflictive_rows_empty:
  assumes "\<forall>g\<in>set df. p_nom g \<le> p_nom_max g" and "map p_nom_max u = map p_nom_max df"
  shows "conflictive_rows df u = []"
proof -
  have "\<not> p_nom g0 > p_nom_max g" if "(g0, g) \<in> set (zip df u)" for g0 g
  proof -
    from that obtain k where k: "k < length df" "k < length u" "df ! k = g0" "u ! k = g"
      by (auto simp: set_zip)
    have "p_nom_max g = map p_nom_max u ! k" using k by simp
    also have "\<dots> = p_nom_max g0" using k assms(2) by simp
    finally show ?thesis using assms(1) k by (metis not_less nth_mem)
  qed
  then show ?thesis
    by (auto simp: conflictive_rows_def filter_empty_conv)
qed

lemma repair_loop_no_conflictive:
  assumes "conflictive_rows d0 u = []" and "repair_loop d0 m u s ws = Inr res"
  shows "res = (u, ws)"
  using assms by (subst (asm) repair_loop.simps) (auto split: if_splits)

lemma sum_list_nonneg_le:
  "\<forall>g\<in>set df. 0 \<le> p_nom g \<Longrightarrow> 0 \<le> p_nom_sum df"
  unfolding p_nom_sum_def by (induction df) auto

lemma update_in_network_increase:
  assumes u: "update_in_network df r m = Inr (df', ws)"
    and nn: "\<forall>g\<in>set df. 0 \<le> p_nom g" and gt: "r > p_nom_sum df"
  shows "list_all2 (\<lambda>g g'. p_nom g \<le> p_nom g') df df'"
proof -
  have ge: "py_int (p_nom_sum df) \<le> py_int r" using gt py_int_mono by simp
  have c: "0 \<le> (r - p_nom_sum df) / real (length df)" using gt by simp
  have f: "p_nom_sum df > 0 \<Longrightarrow> 1 \<le> r / p_nom_sum df" using gt by simp
  have sc: "p_nom g \<le> p_nom g * (r / p_nom_sum df)" if "p_nom_sum df > 0" "g \<in> set df" for g
  proof -
    have "p_nom g * 1 \<le> p_nom g * (r / p_nom_sum df)"
      using f that nn by (intro mult_left_mono) auto
    then show ?thesis by simp
  qed
  show ?thesis
    using u ge c sc
    by (auto simp: update_in_network_def Let_def add_p_nom_def scale_p_nom_def
        list_all2_map2 list_all2_same list.rel_refl split: if_splits)
qed

lemma update_in_network_decrease:
  assumes u: "update_in_network df r m = Inr (df', ws)"
    and nn: "\<forall>g\<in>set df. 0 \<le> p_nom g" and lt: "r < p_nom_sum df"
  shows "list_all2 (\<lambda>g g'. p_nom g' \<le> p_nom g) df df'"
proof -
  have le: "py_int r \<le> py_int (p_nom_sum df)" using lt py_int_mono by simp
  have pos: "0 < p_nom_sum df \<or> df = [] \<or> p_nom_sum df = 0"
    using sum_list_nonneg_le[OF nn] by linarith
  have f: "p_nom_sum df > 0 \<Longrightarrow> r / p_nom_sum df \<le> 1" using lt by simp
  have sc: "p_nom g * (r / p_nom_sum df) \<le> p_nom g" if "p_nom_sum df > 0" "g \<in> set df" for g
  proof -
    have "p_nom g * (r / p_nom_sum df) \<le> p_nom g * 1"
      using f that nn by (intro mult_left_mono) auto
    then show ?thesis by simp
  qed
  show ?thesis
    using u le pos sc
    by (auto simp: update_in_network_def Let_def add_p_nom_def scale_p_nom_def
        list_all2_map2 list_all2_same list.rel_refl split: if_splits)
qed

lemma p_nom_sum_add_p_nom: "p_nom_sum (add_p_nom c df) = p_nom_sum df + real (length df) * c"
  by (induction df) (simp_all add: p_nom_sum_def add_p_nom_def algebra_simps)

lemma p_nom_sum_scale_p_nom: "p_nom_sum (scale_p_nom f df) = p_nom_sum df * f"
  by (induction df) (simp_all add: p_nom_sum_def scale_p_nom_def algebra_simps)

lemma update_in_network_total:
  assumes "update_in_network df r m = Inr (df', ws)"
    and "df \<noteq> []" and "m = ''additional'' \<or> m = ''proportional''"
    and "0 \<le> p_nom_sum df" and "py_int r \<noteq> py_int (p_nom_sum df)"
  shows "p_nom_sum df' = r"
  using assms
  by (auto simp: update_in_network_def Let_def p_nom_sum_add_p_nom p_nom_sum_scale_p_nom
      split: if_splits)

lemma update_in_network_not_exit: "update_in_network df r m \<noteq> Inl SystemExit"
  by (simp add: update_in_network_def Let_def)

lemma repair_loop_not_exit: "repair_loop d0 m u s ws \<noteq> Inl SystemExit"
proof (induction "length s" arbitrary: u s ws rule: less_induct)
  case less
  show ?case
  proof (cases "list_ex (\<lambda>g. p_nom g > p_nom_max g) u")
    case False
    then show ?thesis by (subst repair_loop.simps) simp
  next
    case over: True
    show ?thesis
    proof (cases "conflictive_rows d0 u")
      case Nil
      with over show ?thesis by (subst repair_loop.simps) simp
    next
      case (Cons c cs)
      show ?thesis
      proof (cases "drop_row (name c) s")
        case (Inl e)
        then have "e = KeyError" by (auto simp: drop_row_def split: if_splits)
        with over Cons Inl show ?thesis by (subst repair_loop.simps) simp
      next
        case dropped: (Inr dropped)
        show ?thesis
        proof (cases "update_in_network dropped (p_nom_sum dropped + (p_nom c - p_nom_max c)) m")
          case (Inl e)
          then have "e \<noteq> SystemExit" using update_in_network_not_exit by metis
          with over Cons dropped Inl show ?thesis by (subst repair_loop.simps) simp
        next
          case (Inr res)
          obtain s1 ws1 where res: "res = (s1, ws1)" by (cases res)
          have "length s1 < length s"
            using drop_row_length [OF dropped] update_in_network_length Inr res by fastforce
          then have "repair_loop d0 m
                       (update_df (sub_at (name c) (p_nom c - p_nom_max c) u) s1) s1 (ws @ ws1)
                     \<noteq> Inl SystemExit"
            by (rule less)
          with over Cons dropped Inr res show ?thesis
            by (subst repair_loop.simps) simp
        qed
      qed
    qed
  qed
qed

text \<open>
  Claim C2, as stated, fails: the rule does not compare the target with the current
  total, it compares their truncations to integers. With a current total of 5 and a
  target of 5.9 the target is larger, yet neither method changes any capacity.
\<close>

theorem update_in_network_untruncated_counterexample:
  "p_nom_sum [\<lparr>name = ''g1'', p_nom = 2, p_nom_max = 50\<rparr>,
              \<lparr>name = ''g2'', p_nom = 3, p_nom_max = 20\<rparr>] < 59 / 10
   \<and> update_in_network [\<lparr>name = ''g1'', p_nom = 2, p_nom_max = 50\<rparr>,
                        \<lparr>name = ''g2'', p_nom = 3, p_nom_max = 20\<rparr>] (59 / 10) ''additional''
      \<noteq> Inr (add_p_nom ((59 / 10 - 5) / 2)
                [\<lparr>name = ''g1'', p_nom = 2, p_nom_max = 50\<rparr>,
                 \<lparr>name = ''g2'', p_nom = 3, p_nom_max = 20\<rparr>], [])
   \<and> update_in_network [\<lparr>name = ''g1'', p_nom = 2, p_nom_max = 50\<rparr>,
                        \<lparr>name = ''g2'', p_nom = 3, p_nom_max = 20\<rparr>] (59 / 10) ''proportional''
      \<noteq> Inr (scale_p_nom ((59 / 10) / 5)
                [\<lparr>name = ''g1'', p_nom = 2, p_nom_max = 50\<rparr>,
                 \<lparr>name = ''g2'', p_nom = 3, p_nom_max = 20\<rparr>], [])
   \<and> update_in_network [\<lparr>name = ''g1'', p_nom = 2, p_nom_max = 50\<rparr>,
                        \<lparr>name = ''g2'', p_nom = 3, p_nom_max = 20\<rparr>] (59 / 10) ''additional''
      = Inr ([\<lparr>name = ''g1'', p_nom = 2, p_nom_max = 50\<rparr>,
              \<lparr>name = ''g2'', p_nom = 3, p_nom_max = 20\<rparr>], [])"
  by (simp add: update_in_network_def py_int_def p_nom_sum_def add_p_nom_def scale_p_nom_def)

text \<open>
  Claim C2, amended. With \<open>current\<close> the total \<open>p_nom\<close> of the \<open>N\<close> candidates:
  if \<open>int(required) > int(current)\<close>, method \<^verbatim>\<open>'additional'\<close> adds
  \<open>(required - current)/N\<close> to each candidate, method \<^verbatim>\<open>'proportional'\<close> scales each
  candidate by \<open>required/current\<close> when \<open>current > 0\<close> and falls back to the addition,
  with a warning, when \<open>current = 0\<close>; if \<open>int(required) < int(current)\<close> (and
  \<open>current\<close> is not zero) each candidate is scaled by \<open>required/current\<close>; if the two
  truncations are equal nothing changes.
\<close>

theorem update_in_network_truncated_rule:
  "(py_int required_capacity > py_int (p_nom_sum df) \<and> method_increase = ''additional'' \<longrightarrow>
      update_in_network df required_capacity method_increase =
        Inr (add_p_nom ((required_capacity - p_nom_sum df) / real (length df)) df, []))
   \<and> (py_int required_capacity > py_int (p_nom_sum df) \<and> method_increase = ''proportional''
        \<and> p_nom_sum df > 0 \<longrightarrow>
      update_in_network df required_capacity method_increase =
        Inr (scale_p_nom (required_capacity / p_nom_sum df) df, []))
   \<and> (py_int required_capacity > py_int (p_nom_sum df) \<and> method_increase = ''proportional''
        \<and> p_nom_sum df = 0 \<longrightarrow>
      update_in_network df required_capacity method_increase =
        Inr (add_p_nom ((required_capacity - p_nom_sum df) / real (length df)) df,
             [NoInitialCapacity]))
   \<and> (py_int required_capacity < py_int (p_nom_sum df) \<and> p_nom_sum df \<noteq> 0 \<longrightarrow>
      update_in_network df required_capacity method_increase =
        Inr (scale_p_nom (required_capacity / p_nom_sum df) df, []))
   \<and> (py_int required_capacity = py_int (p_nom_sum df) \<longrightarrow>
      update_in_network df required_capacity method_increase = Inr (df, []))"
  by (auto simp: update_in_network_def Let_def)

theorem update_in_network_truncated_rule_witness:
  "update_in_network [\<lparr>name = ''g1'', p_nom = 10, p_nom_max = 50\<rparr>,
                      \<lparr>name = ''g2'', p_nom = 20, p_nom_max = 50\<rparr>] 40 ''additional''
     = Inr ([\<lparr>name = ''g1'', p_nom = 15, p_nom_max = 50\<rparr>,
             \<lparr>name = ''g2'', p_nom = 25, p_nom_max = 50\<rparr>], [])
   \<and> update_in_network [\<lparr>name = ''g1'', p_nom = 10, p_nom_max = 50\<rparr>,
                        \<lparr>name = ''g2'', p_nom = 20, p_nom_max = 50\<rparr>] 60 ''proportional''
     = Inr ([\<lparr>name = ''g1'', p_nom = 20, p_nom_max = 50\<rparr>,
             \<lparr>name = ''g2'', p_nom = 40, p_nom_max = 50\<rparr>], [])
   \<and> update_in_network [\<lparr>name = ''g1'', p_nom = 0, p_nom_max = 50\<rparr>,
                        \<lparr>name = ''g2'', p_nom = 0, p_nom_max = 50\<rparr>] 8 ''proportional''
     = Inr ([\<lparr>name = ''g1'', p_nom = 4, p_nom_max = 50\<rparr>,
             \<lparr>name = ''g2'', p_nom = 4, p_nom_max = 50\<rparr>], [NoInitialCapacity])
   \<and> update_in_network [\<lparr>name = ''g1'', p_nom = 10, p_nom_max = 50\<rparr>,
                        \<lparr>name = ''g2'', p_nom = 20, p_nom_max = 50\<rparr>] 15 ''additional''
     = Inr ([\<lparr>name = ''g1'', p_nom = 5, p_nom_max = 50\<rparr>,
             \<lparr>name = ''g2'', p_nom = 10, p_nom_max = 50\<rparr>], [])
   \<and> update_in_network [\<lparr>name = ''g1'', p_nom = 10, p_nom_max = 50\<rparr>,
                        \<lparr>name = ''g2'', p_nom = 20, p_nom_max = 50\<rparr>] (61 / 2) ''proportional''
     = Inr ([\<lparr>name = ''g1'', p_nom = 10, p_nom_max = 50\<rparr>,
             \<lparr>name = ''g2'', p_nom = 20, p_nom_max = 50\<rparr>], [])"
  using
    update_in_network_truncated_rule [where required_capacity = 40 and df = "[\<lparr>name = ''g1'', p_nom = 10, p_nom_max = 50\<rparr>,
                      \<lparr>name = ''g2'', p_nom = 20, p_nom_max = 50\<rparr>]" and method_increase = "''additional''"]
    update_in_network_truncated_rule [where required_capacity = 60 and df = "[\<lparr>name = ''g1'', p_nom = 10, p_nom_max = 50\<rparr>,
                      \<lparr>name = ''g2'', p_nom = 20, p_nom_max = 50\<rparr>]" and method_increase = "''proportional''"]
    update_in_network_truncated_rule [where required_capacity = 8 and df = "[\<lparr>name = ''g1'', p_nom = 0, p_nom_max = 50\<rparr>,
                      \<lparr>name = ''g2'', p_nom = 0, p_nom_max = 50\<rparr>]" and method_increase = "''proportional''"]
    update_in_network_truncated_rule [where required_capacity = 15 and df = "[\<lparr>name = ''g1'', p_nom = 10, p_nom_max = 50\<rparr>,
                      \<lparr>name = ''g2'', p_nom = 20, p_nom_max = 50\<rparr>]" and method_increase = "''additional''"]
    update_in_network_truncated_rule [where required_capacity = "61 / 2" and df = "[\<lparr>name = ''g1'', p_nom = 10, p_nom_max = 50\<rparr>,
                      \<lparr>name = ''g2'', p_nom = 20, p_nom_max = 50\<rparr>]" and method_increase = "''proportional''"]
  by (simp add: py_int_def p_nom_sum_def add_p_nom_def scale_p_nom_def)

text \<open>
  Claim C5, as stated, fails: the check before the loop compares the total capacity
  \<^emph>\<open>after the first update\<close> with the combined bound, not the target. One generator
  with \<open>p_nom = 5\<close> and \<open>p_nom_max = 5.5\<close> and a target of 5.9 (above the bound): the
  truncations are equal, the update changes nothing, the total 5 is within the bound and
  the run continues.
\<close>

theorem exit_check_counterexample:
  "p_nom_max_sum [\<lparr>name = ''g1'', p_nom = 5, p_nom_max = 11 / 2\<rparr>] < 59 / 10
   \<and> update_elec_capacities_pair [\<lparr>name = ''g1'', p_nom = 5, p_nom_max = 11 / 2\<rparr>] (59 / 10)
        ''additional''
      = Inr ([\<lparr>name = ''g1'', p_nom = 5, p_nom_max = 11 / 2\<rparr>], [])"
  by (simp add: update_elec_capacities_pair_def update_in_network_def py_int_def p_nom_sum_def
      p_nom_max_sum_def repair_loop.simps)

text \<open>
  Claim C5, amended. Whenever the total capacity after the first update exceeds the
  combined bound, the pair ends in \<^verbatim>\<open>sys.exit\<close>; the loop itself never exits the
  process, so the check is made once, before the loop. When the truncations of the target
  and of the initial total differ (non-empty table, a known method, non-negative total
  and target), the total after the update is the target, so a target above the combined
  bound exits.
\<close>

theorem exit_check_before_loop:
  "(update_in_network df r m = Inr (df_updated, ws) \<and> p_nom_sum df_updated > p_nom_max_sum df_updated
      \<longrightarrow> update_elec_capacities_pair df r m = Inl SystemExit)
   \<and> repair_loop d0 m u s ws0 \<noteq> Inl SystemExit
   \<and> (df \<noteq> [] \<and> (m = ''additional'' \<or> m = ''proportional'') \<and> 0 \<le> p_nom_sum df \<and> 0 \<le> r
       \<and> py_int r \<noteq> py_int (p_nom_sum df) \<and> r > p_nom_max_sum df
      \<longrightarrow> update_elec_capacities_pair df r m = Inl SystemExit)"
proof (intro conjI impI)
  assume "update_in_network df r m = Inr (df_updated, ws) \<and> p_nom_sum df_updated > p_nom_max_sum df_updated"
  then show "update_elec_capacities_pair df r m = Inl SystemExit"
    by (simp add: update_elec_capacities_pair_def)
next
  show "repair_loop d0 m u s ws0 \<noteq> Inl SystemExit" by (rule repair_loop_not_exit)
next
  assume a: "df \<noteq> [] \<and> (m = ''additional'' \<or> m = ''proportional'') \<and> 0 \<le> p_nom_sum df \<and> 0 \<le> r
       \<and> py_int r \<noteq> py_int (p_nom_sum df) \<and> r > p_nom_max_sum df"
  have nz: "\<not> (py_int r < py_int (p_nom_sum df) \<and> p_nom_sum df = 0)"
    using a by (auto simp: py_int_def)
  then obtain df' ws' where u: "update_in_network df r m = Inr (df', ws')"
    by (cases "update_in_network df r m") (auto simp: update_in_network_def Let_def split: if_splits)
  from u a have "p_nom_sum df' = r" by (intro update_in_network_total[OF u]) auto
  moreover have "p_nom_max_sum df' = p_nom_max_sum df"
    using update_in_network_p_nom_max[OF u] by (simp add: p_nom_max_sum_def)
  ultimately show "update_elec_capacities_pair df r m = Inl SystemExit"
    using a u by (simp add: update_elec_capacities_pair_def)
qed

theorem exit_check_before_loop_witness:
  "([\<lparr>name = ''g1'', p_nom = 10, p_nom_max = 12\<rparr>,
     \<lparr>name = ''g2'', p_nom = 20, p_nom_max = 25\<rparr>] \<noteq> []
    \<and> (''additional'' = ''additional'' \<or> ''additional'' = ''proportional'')
    \<and> 0 \<le> p_nom_sum [\<lparr>name = ''g1'', p_nom = 10, p_nom_max = 12\<rparr>,
                       \<lparr>name = ''g2'', p_nom = 20, p_nom_max = 25\<rparr>]
    \<and> (0::real) \<le> 40
    \<and> py_int 40 \<noteq> py_int (p_nom_sum [\<lparr>name = ''g1'', p_nom = 10, p_nom_max = 12\<rparr>,
                                      \<lparr>name = ''g2'', p_nom = 20, p_nom_max = 25\<rparr>])
    \<and> 40 > p_nom_max_sum [\<lparr>name = ''g1'', p_nom = 10, p_nom_max = 12\<rparr>,
                         \<lparr>name = ''g2'', p_nom = 20, p_nom_max = 25\<rparr>])
   \<and> update_elec_capacities_pair [\<lparr>name = ''g1'', p_nom = 10, p_nom_max = 12\<rparr>,
                                  \<lparr>name = ''g2'', p_nom = 20, p_nom_max = 25\<rparr>] 40 ''additional''
       = Inl SystemExit"
proof -
  have h: "[\<lparr>name = ''g1'', p_nom = 10, p_nom_max = 12\<rparr>,
     \<lparr>name = ''g2'', p_nom = 20, p_nom_max = 25\<rparr>] \<noteq> []
    \<and> (''additional'' = ''additional'' \<or> ''additional'' = ''proportional'')
    \<and> 0 \<le> p_nom_sum [\<lparr>name = ''g1'', p_nom = 10, p_nom_max = 12\<rparr>,
                       \<lparr>name = ''g2'', p_nom = 20, p_nom_max = 25\<rparr>]
    \<and> (0::real) \<le> 40
    \<and> py_int 40 \<noteq> py_int (p_nom_sum [\<lparr>name = ''g1'', p_nom = 10, p_nom_max = 12\<rparr>,
                                      \<lparr>name = ''g2'', p_nom = 20, p_nom_max = 25\<rparr>])
    \<and> 40 > p_nom_max_sum [\<lparr>name = ''g1'', p_nom = 10, p_nom_max = 12\<rparr>,
                         \<lparr>name = ''g2'', p_nom = 20, p_nom_max = 25\<rparr>]"
    by (simp add: p_nom_sum_def p_nom_max_sum_def py_int_def)
  with exit_check_before_loop
    [where df = "[\<lparr>name = ''g1'', p_nom = 10, p_nom_max = 12\<rparr>,
                  \<lparr>name = ''g2'', p_nom = 20, p_nom_max = 25\<rparr>]"
       and r = 40 and m = "''additional''"]
  show ?thesis by blast
qed

text \<open>
  Claim C6, as stated, fails for a generator that starts above its own bound: two
  generators with \<open>(p_nom, p_nom_max)\<close> = (10, 5) and (10, 100), method
  \<^verbatim>\<open>'additional'\<close>. With target 30 (above the initial total 20) the first generator
  ends at 5, below its initial 10; with the generators (100, 10) and (10, 100) and target
  55 (below the initial total 110) the second generator ends at 45, above its initial 10.
\<close>

theorem reconciler_monotone_counterexample:
  "p_nom_sum [\<lparr>name = ''g1'', p_nom = 10, p_nom_max = 5\<rparr>,
              \<lparr>name = ''g2'', p_nom = 10, p_nom_max = 100\<rparr>] < 30
   \<and> update_elec_capacities_pair
        [\<lparr>name = ''g1'', p_nom = 10, p_nom_max = 5\<rparr>,
         \<lparr>name = ''g2'', p_nom = 10, p_nom_max = 100\<rparr>] 30 ''additional''
      = Inr ([\<lparr>name = ''g1'', p_nom = 5, p_nom_max = 5\<rparr>,
              \<lparr>name = ''g2'', p_nom = 25, p_nom_max = 100\<rparr>], [])
   \<and> 55 < p_nom_sum [\<lparr>name = ''g1'', p_nom = 100, p_nom_max = 10\<rparr>,
                     \<lparr>name = ''g2'', p_nom = 10, p_nom_max = 100\<rparr>]
   \<and> update_elec_capacities_pair
        [\<lparr>name = ''g1'', p_nom = 100, p_nom_max = 10\<rparr>,
         \<lparr>name = ''g2'', p_nom = 10, p_nom_max = 100\<rparr>] 55 ''additional''
      = Inr ([\<lparr>name = ''g1'', p_nom = 10, p_nom_max = 10\<rparr>,
              \<lparr>name = ''g2'', p_nom = 45, p_nom_max = 100\<rparr>], [])"
  by (simp add: update_elec_capacities_pair_def update_in_network_def p_nom_sum_def
      p_nom_max_sum_def py_int_def add_p_nom_def scale_p_nom_def conflictive_rows_def
      sub_at_def drop_row_def update_df_def repair_loop.simps)

text \<open>
  Claim C6, amended. When every candidate starts with a non-negative capacity that does
  not exceed its bound and the reconciliation of the pair completes, then no capacity
  decreases if the target is above the initial total, and no capacity increases if the
  target is below it.
\<close>

theorem reconciler_monotone_within_bounds:
  assumes res: "update_elec_capacities_pair df r m = Inr (df', ws)"
    and dom: "\<forall>g\<in>set df. 0 \<le> p_nom g \<and> p_nom g \<le> p_nom_max g"
  shows "(r > p_nom_sum df \<longrightarrow> list_all2 (\<lambda>g g'. p_nom g \<le> p_nom g') df df')
     \<and> (r < p_nom_sum df \<longrightarrow> list_all2 (\<lambda>g g'. p_nom g' \<le> p_nom g) df df')"
proof -
  from res obtain u ws0 where u: "update_in_network df r m = Inr (u, ws0)"
    and loop: "repair_loop df m u u ws0 = Inr (df', ws)"
    by (auto simp: update_elec_capacities_pair_def split: sum.splits if_splits)
  have "conflictive_rows df u = []"
    using dom update_in_network_p_nom_max[OF u] by (intro conflictive_rows_empty) auto
  from repair_loop_no_conflictive[OF this loop] have eq: "df' = u" by simp
  from dom have nn: "\<forall>g\<in>set df. 0 \<le> p_nom g" by simp
  show ?thesis
    using update_in_network_increase[OF u nn] update_in_network_decrease[OF u nn] eq by blast
qed

theorem reconciler_monotone_within_bounds_witness:
  "update_elec_capacities_pair
     [\<lparr>name = ''g1'', p_nom = 10, p_nom_max = 50\<rparr>,
      \<lparr>name = ''g2'', p_nom = 20, p_nom_max = 50\<rparr>] 40 ''additional''
     = Inr ([\<lparr>name = ''g1'', p_nom = 15, p_nom_max = 50\<rparr>,
             \<lparr>name = ''g2'', p_nom = 25, p_nom_max = 50\<rparr>], [])
   \<and> p_nom_sum [\<lparr>name = ''g1'', p_nom = 10, p_nom_max = 50\<rparr>,
                \<lparr>name = ''g2'', p_nom = 20, p_nom_max = 50\<rparr>] < 40
   \<and> list_all2 (\<lambda>g g'. p_nom g \<le> p_nom g')
        [\<lparr>name = ''g1'', p_nom = 10, p_nom_max = 50\<rparr>,
         \<lparr>name = ''g2'', p_nom = 20, p_nom_max = 50\<rparr>]
        [\<lparr>name = ''g1'', p_nom = 15, p_nom_max = 50\<rparr>,
         \<lparr>name = ''g2'', p_nom = 25, p_nom_max = 50\<rparr>]"
proof -
  have res: "update_elec_capacities_pair
     [\<lparr>name = ''g1'', p_nom = 10, p_nom_max = 50\<rparr>,
      \<lparr>name = ''g2'', p_nom = 20, p_nom_max = 50\<rparr>] 40 ''additional''
     = Inr ([\<lparr>name = ''g1'', p_nom = 15, p_nom_max = 50\<rparr>,
             \<lparr>name = ''g2'', p_nom = 25, p_nom_max = 50\<rparr>], [])"
    by (simp add: update_elec_capacities_pair_def update_in_network_def p_nom_sum_def
        p_nom_max_sum_def py_int_def add_p_nom_def repair_loop.simps)
  have dom: "\<forall>g\<in>set [\<lparr>name = ''g1'', p_nom = 10, p_nom_max = 50\<rparr>,
                 \<lparr>name = ''g2'', p_nom = 20, p_nom_max = 50\<rparr>].
         0 \<le> p_nom g \<and> p_nom g \<le> p_nom_max g"
    by simp
  have lt: "p_nom_sum [\<lparr>name = ''g1'', p_nom = 10, p_nom_max = 50\<rparr>,
                \<lparr>name = ''g2'', p_nom = 20, p_nom_max = 50\<rparr>] < 40"
    by (simp add: p_nom_sum_def)
  from reconciler_monotone_within_bounds [OF res dom] lt res
  show ?thesis by blast
qed

text \<open>
  The extent of the slip behind claim C1: when every candidate starts within its bound
  and the first update passes the exit check but leaves some generator over its bound,
  the pair always ends in \<open>IndexError\<close>.
\<close>

lemma repair_loop_within_bounds_IndexError:
  assumes dom: "\<forall>g\<in>set df. p_nom g \<le> p_nom_max g"
    and u: "update_in_network df r m = Inr (u, ws)"
    and fits: "\<not> p_nom_sum u > p_nom_max_sum u"
    and over: "list_ex (\<lambda>g. p_nom g > p_nom_max g) u"
  shows "update_elec_capacities_pair df r m = Inl IndexError"
proof -
  have "conflictive_rows df u = []"
    using dom update_in_network_p_nom_max [OF u] by (intro conflictive_rows_empty) auto
  with over have "repair_loop df m u u ws = Inl IndexError"
    by (subst repair_loop.simps) simp
  with u fits show ?thesis by (simp add: update_elec_capacities_pair_def)
qed

section \<open>Properties of the transfer builder\<close>

lemma collect_Inr: "collect rs = Inr vs \<longleftrightarrow> rs = map Inr vs"
proof (induction rs arbitrary: vs rule: collect.induct)
  case 1
  show ?case by auto
next
  case (2 e rs)
  show ?case by auto
next
  case (3 v rs)
  show ?case
  proof (cases "collect rs")
    case (Inl e)
    with 3 show ?thesis by (cases vs) auto
  next
    case (Inr ws)
    with 3 show ?thesis by (cases vs) auto
  qed
qed

lemma shapes_to_shapes_Inr:
  assumes "shapes_to_shapes G S D = Inr T"
  shows "length T = length D"
    and "i < length D \<Longrightarrow> map Inr (T ! i) = map (\<lambda>s. transfer_entry G s (D ! i)) S"
proof -
  from assms have eq: "map (\<lambda>d. collect (map (\<lambda>s. transfer_entry G s d) S)) D = map Inr T"
    by (simp add: shapes_to_shapes_def collect_Inr)
  then show len: "length T = length D" by (metis length_map)
  assume i: "i < length D"
  from eq have "map (\<lambda>d. collect (map (\<lambda>s. transfer_entry G s d) S)) D ! i = map Inr T ! i"
    by simp
  with i len have "collect (map (\<lambda>s. transfer_entry G s (D ! i)) S) = Inr (T ! i)" by simp
  then show "map Inr (T ! i) = map (\<lambda>s. transfer_entry G s (D ! i)) S"
    by (simp add: collect_Inr)
qed

lemma shapes_to_shapes_row:
  assumes "shapes_to_shapes G S D = Inr T" and "i < length D" and "area G (D ! i) \<noteq> 0"
  shows "T ! i = map (\<lambda>s. if intersects G s (D ! i)
                           then intersection_area G s (D ! i) / area G (D ! i) else 0) S"
proof -
  have "map (\<lambda>s. transfer_entry G s (D ! i)) S
        = map Inr (map (\<lambda>s. if intersects G s (D ! i)
                           then intersection_area G s (D ! i) / area G (D ! i) else 0) S)"
    using assms(3) by (simp add: transfer_entry_def)
  with shapes_to_shapes_Inr(2) [OF assms(1,2)]
  have "map (Inr :: real \<Rightarrow> error + real) (T ! i)
        = map Inr (map (\<lambda>s. if intersects G s (D ! i)
                           then intersection_area G s (D ! i) / area G (D ! i) else 0) S)"
    by (simp only:)
  then show ?thesis by (rule map_injective) (simp add: inj_on_def)
qed

lemma shapes_to_shapes_entry:
  assumes "shapes_to_shapes G S D = Inr T" and "i < length D" and "j < length S"
  shows "length (T ! i) = length S"
    and "T ! i ! j \<noteq> 0 \<Longrightarrow> intersects G (S ! j) (D ! i)"
    and "intersects G (S ! j) (D ! i) \<Longrightarrow>
           T ! i ! j = intersection_area G (S ! j) (D ! i) / area G (D ! i)"
proof -
  have m: "map Inr (T ! i) = map (\<lambda>s. transfer_entry G s (D ! i)) S"
    using shapes_to_shapes_Inr(2) [OF assms(1,2)] .
  then show len: "length (T ! i) = length S" by (metis length_map)
  from m have "map Inr (T ! i) ! j = map (\<lambda>s. transfer_entry G s (D ! i)) S ! j" by simp
  with len assms(3) have e: "transfer_entry G (S ! j) (D ! i) = Inr (T ! i ! j)" by simp
  from e show "T ! i ! j \<noteq> 0 \<Longrightarrow> intersects G (S ! j) (D ! i)"
    by (auto simp: transfer_entry_def split: if_splits)
  from e show "intersects G (S ! j) (D ! i) \<Longrightarrow>
           T ! i ! j = intersection_area G (S ! j) (D ! i) / area G (D ! i)"
    by (auto simp: transfer_entry_def split: if_splits)
qed

lemma collect_map_Inr: "collect (map Inr vs) = Inr vs"
  by (simp add: collect_Inr)

lemma shapes_to_shapes_total:
  assumes "\<forall>d\<in>set D. area G d \<noteq> 0"
  shows "\<exists>T. shapes_to_shapes G S D = Inr T"
proof -
  have row: "collect (map (\<lambda>s. transfer_entry G s d) S)
             = Inr (map (\<lambda>s. if intersects G s d then intersection_area G s d / area G d else 0) S)"
    if "d \<in> set D" for d
  proof -
    have "map (\<lambda>s. transfer_entry G s d) S
          = map Inr (map (\<lambda>s. if intersects G s d then intersection_area G s d / area G d else 0) S)"
      using assms that by (simp add: transfer_entry_def)
    then show ?thesis by (simp only: collect_map_Inr)
  qed
  have "map (\<lambda>d. collect (map (\<lambda>s. transfer_entry G s d) S)) D
        = map Inr (map (\<lambda>d. map (\<lambda>s. if intersects G s d then intersection_area G s d / area G d else 0) S) D)"
    using row by simp
  then show ?thesis unfolding shapes_to_shapes_def by (simp only: collect_map_Inr) blast
qed

lemma sum_list_if_div:
  "sum_list (map (\<lambda>s. if P s then f s / a else 0) S) = sum_list (map f (filter P S)) / (a::real)"
  by (induction S) (simp_all add: add_divide_distrib)

lemma shapes_to_shapes_bounds:
  assumes T: "shapes_to_shapes G S D = Inr T" and pos: "\<forall>d\<in>set D. 0 < area G d"
    and ia: "\<forall>s\<in>set S. \<forall>d\<in>set D. 0 \<le> intersection_area G s d \<and> intersection_area G s d \<le> area G d"
    and row: "row \<in> set T" and x: "x \<in> set row"
  shows "0 \<le> x \<and> x \<le> 1"
proof -
  from row obtain i where i: "i < length T" "T ! i = row" by (auto simp: in_set_conv_nth)
  then have iD: "i < length D" using shapes_to_shapes_Inr(1) [OF T] by simp
  then have d: "D ! i \<in> set D" by simp
  with pos have nz: "area G (D ! i) \<noteq> 0" by fastforce
  from shapes_to_shapes_row [OF T iD nz] i x
  obtain s where s: "s \<in> set S"
    and xs: "x = (if intersects G s (D ! i) then intersection_area G s (D ! i) / area G (D ! i) else 0)"
    by auto
  from ia s d pos show ?thesis unfolding xs by (auto simp: divide_le_eq_1)
qed

lemma shapes_to_shapes_row_sum:
  assumes T: "shapes_to_shapes G S D = Inr T"
    and ov: "\<forall>d\<in>set D. 0 < area G d \<and>
               sum_list (map (\<lambda>s. intersection_area G s d) (filter (\<lambda>s. intersects G s d) S)) \<le> area G d"
    and row: "row \<in> set T"
  shows "sum_list row \<le> 1"
proof -
  from row obtain i where i: "i < length T" "T ! i = row" by (auto simp: in_set_conv_nth)
  then have iD: "i < length D" using shapes_to_shapes_Inr(1) [OF T] by simp
  then have d: "D ! i \<in> set D" by simp
  with ov have nz: "area G (D ! i) \<noteq> 0" and pos: "0 < area G (D ! i)" by fastforce+
  have "sum_list row = sum_list (map (\<lambda>s. intersection_area G s (D ! i))
                          (filter (\<lambda>s. intersects G s (D ! i)) S)) / area G (D ! i)"
    using shapes_to_shapes_row [OF T iD nz] i by (simp add: sum_list_if_div)
  also have "\<dots> \<le> 1" using ov d pos by (simp add: divide_le_eq_1)
  finally show ?thesis .
qed

text \<open>
  Claim C4, as stated, fails in two places. Two copies of the unit square as sources and
  the unit square as target (positive area): both entries are 1 and the row sums to 2.
  And a target of zero area that touches a source makes the builder raise
  \<open>ZeroDivisionError\<close> instead of returning a matrix.
\<close>

theorem shapes_to_shapes_counterexample:
  "shapes_to_shapes box_shapely
     [\<lparr>x_min = 0, y_min = 0, x_max = 1, y_max = 1\<rparr>, \<lparr>x_min = 0, y_min = 0, x_max = 1, y_max = 1\<rparr>]
     [\<lparr>x_min = 0, y_min = 0, x_max = 1, y_max = 1\<rparr>] = Inr [[1, 1]]
   \<and> 0 < area box_shapely \<lparr>x_min = 0, y_min = 0, x_max = 1, y_max = 1\<rparr>
   \<and> sum_list [1, 1 :: real] > 1
   \<and> shapes_to_shapes box_shapely
     [\<lparr>x_min = 0, y_min = 0, x_max = 1, y_max = 1\<rparr>]
     [\<lparr>x_min = 0, y_min = 0, x_max = 0, y_max = 1\<rparr>] = Inl ZeroDivisionError"
  by (simp add: shapes_to_shapes_def transfer_entry_def box_shapely_def)

text \<open>
  Claim C4, amended. Whenever the builder returns, the result is an \<open>m \<times> n\<close> matrix whose
  entry \<open>(i, j)\<close> is nonzero only if \<open>S[j]\<close> intersects \<open>D[i]\<close>, and then equals
  intersection-area\<open>(S[j], D[i])\<close> / area\<open>(D[i])\<close>; it returns when no target polygon has
  zero area. If every target polygon has positive area and an intersection with a
  target is never negative and never larger than the target, every entry lies in
  \<open>[0, 1]\<close>. If moreover, for every target, the areas of its intersections with the
  sources add up to at most its own area (as they do for sources that do not overlap
  one another), every row sums to at most 1.
\<close>

theorem shapes_to_shapes_contract:
  "(shapes_to_shapes G S D = Inr T \<longrightarrow>
      length T = length D
      \<and> (\<forall>i<length D. length (T ! i) = length S
           \<and> (\<forall>j<length S.
                 (T ! i ! j \<noteq> 0 \<longrightarrow> intersects G (S ! j) (D ! i))
               \<and> (intersects G (S ! j) (D ! i) \<longrightarrow>
                    T ! i ! j = intersection_area G (S ! j) (D ! i) / area G (D ! i)))))
   \<and> ((\<forall>d\<in>set D. area G d \<noteq> 0) \<longrightarrow> (\<exists>T'. shapes_to_shapes G S D = Inr T'))
   \<and> (shapes_to_shapes G S D = Inr T \<and> (\<forall>d\<in>set D. 0 < area G d)
        \<and> (\<forall>s\<in>set S. \<forall>d\<in>set D.
              0 \<le> intersection_area G s d \<and> intersection_area G s d \<le> area G d) \<longrightarrow>
      (\<forall>row\<in>set T. \<forall>x\<in>set row. 0 \<le> x \<and> x \<le> 1))
   \<and> (shapes_to_shapes G S D = Inr T
        \<and> (\<forall>d\<in>set D. 0 < area G d
              \<and> sum_list (map (\<lambda>s. intersection_area G s d) (filter (\<lambda>s. intersects G s d) S))
                  \<le> area G d) \<longrightarrow>
      (\<forall>row\<in>set T. sum_list row \<le> 1))"
proof (intro conjI impI allI ballI)
  assume T: "shapes_to_shapes G S D = Inr T"
  show "length T = length D" using shapes_to_shapes_Inr(1) [OF T] .
  fix i j assume i: "i < length D"
  show "length (T ! i) = length S"
    using shapes_to_shapes_Inr(2) [OF T i] by (metis length_map)
  assume j: "j < length S"
  show "intersects G (S ! j) (D ! i)" if "T ! i ! j \<noteq> 0"
    using shapes_to_shapes_entry(2) [OF T i j] that .
  show "T ! i ! j = intersection_area G (S ! j) (D ! i) / area G (D ! i)"
    if "intersects G (S ! j) (D ! i)"
    using shapes_to_shapes_entry(3) [OF T i j] that .
next
  assume "\<forall>d\<in>set D. area G d \<noteq> 0"
  then show "\<exists>T'. shapes_to_shapes G S D = Inr T'" by (rule shapes_to_shapes_total)
next
  fix row x
  assume a: "shapes_to_shapes G S D = Inr T \<and> (\<forall>d\<in>set D. 0 < area G d)
        \<and> (\<forall>s\<in>set S. \<forall>d\<in>set D.
              0 \<le> intersection_area G s d \<and> intersection_area G s d \<le> area G d)"
    and r: "row \<in> set T" and x: "x \<in> set row"
  from a r x shapes_to_shapes_bounds [of G S D T row x]
  show "0 \<le> x" "x \<le> 1" by blast+
next
  fix row
  assume a: "shapes_to_shapes G S D = Inr T
        \<and> (\<forall>d\<in>set D. 0 < area G d
              \<and> sum_list (map (\<lambda>s. intersection_area G s d) (filter (\<lambda>s. intersects G s d) S))
                  \<le> area G d)"
    and r: "row \<in> set T"
  from a r shapes_to_shapes_row_sum [of G S D T row]
  show "sum_list row \<le> 1" by blast
qed

theorem shapes_to_shapes_contract_witness:
  "shapes_to_shapes box_shapely
     [\<lparr>x_min = 0, y_min = 0, x_max = 1, y_max = 1\<rparr>, \<lparr>x_min = 1, y_min = 0, x_max = 2, y_max = 1\<rparr>]
     [\<lparr>x_min = 0, y_min = 0, x_max = 2, y_max = 1\<rparr>, \<lparr>x_min = 5, y_min = 0, x_max = 6, y_max = 1\<rparr>]
     = Inr [[1 / 2, 1 / 2], [0, 0]]
   \<and> sum_list [1 / 2, 1 / 2 :: real] \<le> 1 \<and> sum_list [0, 0 :: real] \<le> 1"
proof -
  have ev: "shapes_to_shapes box_shapely
     [\<lparr>x_min = 0, y_min = 0, x_max = 1, y_max = 1\<rparr>, \<lparr>x_min = 1, y_min = 0, x_max = 2, y_max = 1\<rparr>]
     [\<lparr>x_min = 0, y_min = 0, x_max = 2, y_max = 1\<rparr>, \<lparr>x_min = 5, y_min = 0, x_max = 6, y_max = 1\<rparr>]
     = Inr [[1 / 2, 1 / 2], [0, 0]]"
    by (simp add: shapes_to_shapes_def transfer_entry_def box_shapely_def)
  have hyp: "\<forall>d\<in>set [\<lparr>x_min = 0, y_min = 0, x_max = 2, y_max = 1\<rparr>,
                     \<lparr>x_min = 5, y_min = 0, x_max = 6, y_max = 1\<rparr>].
      0 < area box_shapely d
      \<and> sum_list (map (\<lambda>s. intersection_area box_shapely s d)
           (filter (\<lambda>s. intersects box_shapely s d)
              [\<lparr>x_min = 0, y_min = 0, x_max = 1, y_max = 1\<rparr>,
               \<lparr>x_min = 1, y_min = 0, x_max = 2, y_max = 1\<rparr>])) \<le> area box_shapely d"
    by (simp add: box_shapely_def)
  from shapes_to_shapes_contract
    [where G = box_shapely
       and S = "[\<lparr>x_min = 0, y_min = 0, x_max = 1, y_max = 1\<rparr>,
                 \<lparr>x_min = 1, y_min = 0, x_max = 2, y_max = 1\<rparr>]"
       and D = "[\<lparr>x_min = 0, y_min = 0, x_max = 2, y_max = 1\<rparr>,
                 \<lparr>x_min = 5, y_min = 0, x_max = 6, y_max = 1\<rparr>]"
       and T = "[[1 / 2, 1 / 2], [0, 0]]"] ev hyp
  have "\<forall>row\<in>set [[1 / 2, 1 / 2], [0, 0 :: real]]. sum_list row \<le> 1" by blast
  with ev show ?thesis by simp
qed

section \<open>Properties of the load disaggregator\<close>

lemma sum_list_divide_const: "sum_list (map (\<lambda>x. x / c) v) = sum_list v / (c::real)"
  by (induction v) (simp_all add: add_divide_distrib)

lemma normed_Inr:
  "sum_list v \<noteq> 0 \<Longrightarrow> normed v = Inr (spec_normalize v)"
  by (simp add: normed_def spec_normalize_def)

lemma normed_length: "normed v = Inr f \<Longrightarrow> length f = length v"
  by (auto simp: normed_def split: if_splits)

lemma normed_sum:
  assumes "normed v = Inr f" and "v \<noteq> []"
  shows "sum_list f = 1"
proof -
  from assms have nz: "sum_list v \<noteq> 0" and f: "f = map (\<lambda>x. x / sum_list v) v"
    by (auto simp: normed_def split: if_splits)
  show ?thesis unfolding f using nz by (simp add: sum_list_divide_const)
qed

lemma spec_normalize_sum: "sum_list v \<noteq> 0 \<Longrightarrow> sum_list (spec_normalize v) = 1"
  by (simp add: spec_normalize_def sum_list_divide_const)

lemma spec_normalize_length: "length (spec_normalize v) = length v"
  by (simp add: spec_normalize_def)

lemma sum_list_map2_linear:
  "length xs = length ys \<Longrightarrow>
   sum_list (map2 (\<lambda>a b. w1 * a + w2 * b) xs ys) = w1 * sum_list xs + w2 * (sum_list ys :: real)"
  by (induction xs ys rule: list_induct2) (simp_all add: algebra_simps)

lemma weighted_factors_spec:
  assumes "sum_list gdp \<noteq> 0" and "sum_list pop \<noteq> 0" and "length gdp = length pop"
    and "w_gdp + w_pop \<noteq> 0"
  shows "weighted_factors w_gdp w_pop gdp pop = Inr (spec_factor w_gdp w_pop gdp pop)"
    and "sum_list (spec_factor w_gdp w_pop gdp pop) = 1"
proof -
  let ?m = "map2 (\<lambda>a b. w_gdp * a + w_pop * b) (spec_normalize gdp) (spec_normalize pop)"
  have "sum_list ?m = w_gdp * sum_list (spec_normalize gdp) + w_pop * sum_list (spec_normalize pop)"
    using assms(3) by (intro sum_list_map2_linear) (simp add: spec_normalize_length)
  then have s: "sum_list ?m = w_gdp + w_pop"
    using assms(1,2) by (simp add: spec_normalize_sum)
  with assms(4) have nz: "sum_list ?m \<noteq> 0" by simp
  show "weighted_factors w_gdp w_pop gdp pop = Inr (spec_factor w_gdp w_pop gdp pop)"
    using assms(1,2) normed_Inr [OF nz]
    by (simp add: weighted_factors_def normed_Inr spec_factor_def)
  show "sum_list (spec_factor w_gdp w_pop gdp pop) = 1"
    unfolding spec_factor_def using nz by (rule spec_normalize_sum)
qed

lemma weighted_factors_length:
  assumes "weighted_factors w_gdp w_pop gdp pop = Inr f" and "length gdp = length pop"
  shows "length f = length gdp"
  using assms
  by (auto simp: weighted_factors_def split: sum.splits dest!: normed_length)

lemma weighted_factors_sum:
  assumes "weighted_factors w_gdp w_pop gdp pop = Inr f" and "f \<noteq> []"
  shows "sum_list f = 1"
proof -
  from assms(1) obtain g p where g: "normed gdp = Inr g" and p: "normed pop = Inr p"
    and f: "normed (map2 (\<lambda>a b. w_gdp * a + w_pop * b) g p) = Inr f"
    by (auto simp: weighted_factors_def split: sum.splits)
  from normed_length [OF f] assms(2) have "map2 (\<lambda>a b. w_gdp * a + w_pop * b) g p \<noteq> []"
    by auto
  with f show ?thesis by (rule normed_sum)
qed

lemma transfer_dot_length: "length (transfer_dot T v n) = n"
  by (simp add: transfer_dot_def)

lemma gdp_pop_n_length:
  "gdp_pop_n G grp sel = Inr (gdp_n, pop_n) \<Longrightarrow> length gdp_n = length grp \<and> length pop_n = length grp"
  by (auto simp: gdp_pop_n_def transfer_dot_length split: sum.splits)

lemma outer_row_sum:
  assumes "sum_list f = 1" and "t < length load"
  shows "sum_list (outer f load ! t) = load ! t"
proof -
  have "sum_list (map (\<lambda>x. x * c) f) = sum_list f * c" for c :: real
    by (induction f) (simp_all add: algebra_simps)
  with assms show ?thesis by (simp add: outer_def)
qed

lemma outer_length: "length (outer f load) = length load"
  by (simp add: outer_def)

lemma outer_row_length: "t < length load \<Longrightarrow> length (outer f load ! t) = length f"
  by (simp add: outer_def)

lemma upsample_factors_sum:
  assumes "upsample_factors G flag subst nuts3 tbl cntry grp = Inr (cols, f)" and "f \<noteq> []"
  shows "sum_list f = 1" and "length cols = length f"
proof -
  show "sum_list f = 1"
    using assms
    by (auto simp: upsample_factors_def Let_def split: sum.splits if_splits prod.splits
        dest: weighted_factors_sum)
  show "length cols = length f"
    using assms(1)
    by (auto simp: upsample_factors_def Let_def split: sum.splits if_splits prod.splits
        dest!: weighted_factors_length gdp_pop_n_length)
qed

lemma upsample_factors_cols:
  assumes "upsample_factors G flag subst nuts3 tbl cntry grp = Inr (cols, f)"
  shows "length cols = length f"
  using assms
  by (auto simp: upsample_factors_def Let_def split: sum.splits if_splits prod.splits
      dest!: weighted_factors_length gdp_pop_n_length)

lemma upsample_conserves:
  assumes u: "upsample G flag subst opsd_load nuts3 tbl cntry grp = Inr (cols, rows)"
    and ne: "cols \<noteq> []" and l: "opsd_load cntry = Some load"
  shows "length rows = length load \<and> (\<forall>t<length load. sum_list (rows ! t) = load ! t)"
proof (cases "\<exists>bus shape. grp = [(bus, shape)]")
  case True
  with u l show ?thesis by (auto simp: upsample_def)
next
  case False
  with u l obtain f where uf: "upsample_factors G flag subst nuts3 tbl cntry grp = Inr (cols, f)"
    and rows: "rows = outer f load"
    by (auto simp: upsample_def split: list.splits sum.splits prod.splits)
  from upsample_factors_cols [OF uf] ne have "f \<noteq> []" by auto
  from upsample_factors_sum(1) [OF uf this] show ?thesis
    unfolding rows by (simp add: outer_length outer_row_sum)
qed

lemma sum_list_map2_add:
  "length ra = length rb \<Longrightarrow> sum_list (map2 (\<lambda>x y. x + y) ra rb) = sum_list ra + (sum_list rb :: real)"
  by (induction ra rb rule: list_induct2) simp_all

lemma upsample_rr_factors_length:
  assumes "upsample_rr_factors G contains flag nuts3_tbl grp rr_ID = Inr f"
  shows "length f = length grp"
  using assms
  by (auto simp: upsample_rr_factors_def Let_def split: sum.splits if_splits prod.splits
      dest!: weighted_factors_length gdp_pop_n_length)

lemma upsample_rr_factors_sum:
  assumes "upsample_rr_factors G contains flag nuts3_tbl grp rr_ID = Inr f" and "f \<noteq> []"
  shows "sum_list f = 1"
  using assms
  by (auto simp: upsample_rr_factors_def Let_def split: sum.splits if_splits prod.splits
      dest: weighted_factors_sum)

lemma add_frames_outer:
  assumes len: "length total0 = length load"
    and rows: "\<forall>row\<in>set total0. length row = length f"
    and f: "sum_list f = 1"
  shows "length (add_frames total0 (outer f load)) = length load"
    and "\<forall>row\<in>set (add_frames total0 (outer f load)). length row = length f"
    and "t < length load \<Longrightarrow>
           sum_list (add_frames total0 (outer f load) ! t) = sum_list (total0 ! t) + load ! t"
proof -
  show "length (add_frames total0 (outer f load)) = length load"
    using len by (simp add: add_frames_def outer_length)
  show "\<forall>row\<in>set (add_frames total0 (outer f load)). length row = length f"
    using rows by (auto simp: add_frames_def outer_def set_zip)
  assume t: "t < length load"
  then have r: "length (total0 ! t) = length (outer f load ! t)"
    using len rows by (simp add: outer_row_length)
  have "add_frames total0 (outer f load) ! t
        = map2 (\<lambda>x y. x + y) (total0 ! t) (outer f load ! t)"
    using t len by (simp add: add_frames_def outer_length)
  then show "sum_list (add_frames total0 (outer f load) ! t) = sum_list (total0 ! t) + load ! t"
    using sum_list_map2_add [OF r] outer_row_sum [OF f t] by simp
qed

lemma upsample_regions_sum:
  assumes "upsample_regions G contains flag nuts3_tbl grp columns total0 = Inr tot"
    and "grp \<noteq> []" and "length total0 = n"
    and "\<forall>row\<in>set total0. length row = length grp"
    and "\<forall>c\<in>set columns. length (snd c) = n"
  shows "length tot = n
       \<and> (\<forall>t<n. sum_list (tot ! t)
                 = sum_list (total0 ! t) + sum_list (map (\<lambda>c. snd c ! t) columns))"
  using assms
proof (induction columns arbitrary: total0)
  case Nil
  then show ?case by simp
next
  case (Cons col columns)
  obtain rr_ID load where col: "col = (rr_ID, load)" by (cases col)
  from Cons.prems(1) col obtain f
    where f: "upsample_rr_factors G contains flag nuts3_tbl grp rr_ID = Inr f"
      and rest: "upsample_regions G contains flag nuts3_tbl grp columns
                   (add_frames total0 (outer f load)) = Inr tot"
    by (auto split: sum.splits)
  have lf: "length f = length grp" using upsample_rr_factors_length [OF f] .
  with Cons.prems(2) have "f \<noteq> []" by auto
  then have sf: "sum_list f = 1" using upsample_rr_factors_sum [OF f] by simp
  have ll: "length load = n" using Cons.prems(5) col by simp
  have len0: "length total0 = length load" using Cons.prems(3) ll by simp
  have rows0: "\<forall>row\<in>set total0. length row = length f" using Cons.prems(4) lf by simp
  note af = add_frames_outer [OF len0 rows0 sf]
  have "length tot = n
       \<and> (\<forall>t<n. sum_list (tot ! t)
                 = sum_list (add_frames total0 (outer f load) ! t)
                   + sum_list (map (\<lambda>c. snd c ! t) columns))"
    using rest Cons.prems(2) af(1) af(2) Cons.prems(5) ll lf
    by (intro Cons.IH) auto
  then show ?case using af(3) ll col by auto
qed

lemma upsample_vPyPSA_Spain_conserves:
  assumes "upsample_vPyPSA_Spain G contains flag nuts3_tbl n_time columns cntry grp = Inr (cols, rows)"
    and "grp \<noteq> []" and "\<forall>c\<in>set columns. length (snd c) = n_time"
  shows "length rows = n_time
       \<and> (\<forall>t<n_time. sum_list (rows ! t) = sum_list (map (\<lambda>c. snd c ! t) columns))"
proof -
  from assms(1) have r: "upsample_regions G contains flag nuts3_tbl grp columns
             (replicate n_time (replicate (length grp) 0)) = Inr rows"
    by (auto simp: upsample_vPyPSA_Spain_def split: sum.splits)
  have "length rows = n_time
       \<and> (\<forall>t<n_time. sum_list (rows ! t)
            = sum_list (replicate n_time (replicate (length grp) (0::real)) ! t)
              + sum_list (map (\<lambda>c. snd c ! t) columns))"
    using r assms(2,3) by (intro upsample_regions_sum) auto
  then show ?thesis by (simp add: sum_list_replicate)
qed

text \<open>
  Claim C9. In national mode a country that maps to exactly one target bus gets the
  whole national series on that bus: the output has the single column of that bus,
  holding the series of the load file times \<^verbatim>\<open>scaling\<close>, that is the input series
  itself when the scaling factor is 1.
\<close>

theorem single_bus_gets_national_load:
  "cntry \<in> set countries \<and> load_csv cntry = Some series \<longrightarrow>
     upsample G update_gdp_pop substation_lv_i (scaled_load scaling countries load_csv) nuts3_tbl
       gdp_pop_tbl cntry [(bus, shape)]
       = Inr ([bus], map (\<lambda>x. [x * scaling]) series)
     \<and> (scaling = 1 \<longrightarrow>
          upsample G update_gdp_pop substation_lv_i (scaled_load scaling countries load_csv) nuts3_tbl
            gdp_pop_tbl cntry [(bus, shape)]
          = Inr ([bus], map (\<lambda>x. [x]) series))"
  by (simp add: upsample_def scaled_load_def comp_def)

theorem single_bus_gets_national_load_witness:
  "upsample box_shapely False [''b1''] (scaled_load 1 [''ES'', ''PT''] [''ES'' \<mapsto> [100, 200]])
     [] [] ''ES'' [(''b1'', \<lparr>x_min = 0, y_min = 0, x_max = 1, y_max = 1\<rparr>)]
   = Inr ([''b1''], [[100], [200]])"
  using single_bus_gets_national_load
    [where cntry = "''ES''" and countries = "[''ES'', ''PT'']"
       and load_csv = "[''ES'' \<mapsto> [100, 200]]" and series = "[100, 200]" and scaling = 1
       and G = box_shapely and update_gdp_pop = False and substation_lv_i = "[''b1'']"
       and nuts3_tbl = "[]" and gdp_pop_tbl = "[]" and bus = "''b1''"
       and shape = "\<lparr>x_min = 0, y_min = 0, x_max = 1, y_max = 1\<rparr>"]
  by simp

text \<open>
  Claim C3. In both modes, the factors of a group sum to 1 and each timestamp's
  disaggregated load, summed over the buses of the group, is the input value: for the
  factors and the output of the national \<^verbatim>\<open>upsample\<close>, for the factors and the
  contribution \<^verbatim>\<open>return_rr\<close> of one region in regional mode, and for the accumulated
  \<^verbatim>\<open>return_total\<close>, whose row sums are the sums of the regional series. The model
  returns factors for a group only when no denominator is zero; the last part states the
  converse for the factors directly: with nonzero sums of \<^verbatim>\<open>gdp_n\<close> and \<^verbatim>\<open>pop_n\<close>
  (and weights that do not cancel) the factors exist and sum to 1.
\<close>

theorem load_conservation:
  "(upsample_factors G update_gdp_pop substation_lv_i nuts3_tbl gdp_pop_tbl cntry grp
      = Inr (cols, f) \<and> f \<noteq> [] \<longrightarrow> sum_list f = 1)
   \<and> (upsample G update_gdp_pop substation_lv_i opsd_load nuts3_tbl gdp_pop_tbl cntry grp
        = Inr (cols, rows) \<and> cols \<noteq> [] \<and> opsd_load cntry = Some load \<longrightarrow>
      length rows = length load \<and> (\<forall>t<length load. sum_list (rows ! t) = load ! t))
   \<and> (upsample_rr_factors G contains update_gdp_pop nuts3_tbl grp rr_ID = Inr f \<and> f \<noteq> [] \<longrightarrow>
      sum_list f = 1 \<and> (\<forall>t<length load. sum_list (outer f load ! t) = load ! t))
   \<and> (upsample_vPyPSA_Spain G contains update_gdp_pop nuts3_tbl n_time columns cntry grp
        = Inr (cols, rows) \<and> grp \<noteq> [] \<and> (\<forall>c\<in>set columns. length (snd c) = n_time) \<longrightarrow>
      length rows = n_time
      \<and> (\<forall>t<n_time. sum_list (rows ! t) = sum_list (map (\<lambda>c. snd c ! t) columns)))
   \<and> (gdp_pop_n G grp nuts3_sel = Inr (gdp_n, pop_n) \<and> sum_list gdp_n \<noteq> 0
        \<and> sum_list pop_n \<noteq> 0 \<and> w_gdp + w_pop \<noteq> 0 \<longrightarrow>
      (\<exists>f. weighted_factors w_gdp w_pop gdp_n pop_n = Inr f \<and> sum_list f = 1))"
proof (intro conjI impI)
  assume "upsample_factors G update_gdp_pop substation_lv_i nuts3_tbl gdp_pop_tbl cntry grp
      = Inr (cols, f) \<and> f \<noteq> []"
  then show "sum_list f = 1" using upsample_factors_sum(1) by blast
next
  assume "upsample G update_gdp_pop substation_lv_i opsd_load nuts3_tbl gdp_pop_tbl cntry grp
        = Inr (cols, rows) \<and> cols \<noteq> [] \<and> opsd_load cntry = Some load"
  then show "length rows = length load" "\<forall>t<length load. sum_list (rows ! t) = load ! t"
    using upsample_conserves by blast+
next
  assume a: "upsample_rr_factors G contains update_gdp_pop nuts3_tbl grp rr_ID = Inr f \<and> f \<noteq> []"
  then show s: "sum_list f = 1" using upsample_rr_factors_sum by blast
  then show "\<forall>t<length load. sum_list (outer f load ! t) = load ! t"
    using outer_row_sum by blast
next
  assume "upsample_vPyPSA_Spain G contains update_gdp_pop nuts3_tbl n_time columns cntry grp
        = Inr (cols, rows) \<and> grp \<noteq> [] \<and> (\<forall>c\<in>set columns. length (snd c) = n_time)"
  then show "length rows = n_time"
    "\<forall>t<n_time. sum_list (rows ! t) = sum_list (map (\<lambda>c. snd c ! t) columns)"
    using upsample_vPyPSA_Spain_conserves by blast+
next
  assume a: "gdp_pop_n G grp nuts3_sel = Inr (gdp_n, pop_n) \<and> sum_list gdp_n \<noteq> 0
        \<and> sum_list pop_n \<noteq> 0 \<and> w_gdp + w_pop \<noteq> 0"
  then have "length gdp_n = length pop_n" using gdp_pop_n_length by fastforce
  with a show "\<exists>f. weighted_factors w_gdp w_pop gdp_n pop_n = Inr f \<and> sum_list f = 1"
    using weighted_factors_spec by blast
qed

lemma upsample_national_example:
  "upsample box_shapely False [''b1'', ''b2''] [''ES'' \<mapsto> [100, 200]]
     [\<lparr>nuts3_index = ''ES111'', nuts3_country = ''ES'', nuts3_gdp = Some 2, nuts3_pop = None,
        nuts3_geometry = \<lparr>x_min = 0, y_min = 0, x_max = 4, y_max = 1\<rparr>\<rparr>]
     [] ''ES''
     [(''b1'', \<lparr>x_min = 0, y_min = 0, x_max = 1, y_max = 1\<rparr>),
      (''b2'', \<lparr>x_min = 1, y_min = 0, x_max = 4, y_max = 1\<rparr>)]
   = Inr ([''b1'', ''b2''], [[25, 75], [50, 150]])"
  by (simp add: upsample_def upsample_factors_def gdp_pop_n_def shapes_to_shapes_def
      transfer_entry_def box_shapely_def transfer_dot_def fillna_def weighted_factors_def
      normed_def outer_def)

theorem load_conservation_witness:
  "upsample box_shapely False [''b1'', ''b2''] [''ES'' \<mapsto> [100, 200]]
     [\<lparr>nuts3_index = ''ES111'', nuts3_country = ''ES'', nuts3_gdp = Some 2, nuts3_pop = None,
        nuts3_geometry = \<lparr>x_min = 0, y_min = 0, x_max = 4, y_max = 1\<rparr>\<rparr>]
     [] ''ES''
     [(''b1'', \<lparr>x_min = 0, y_min = 0, x_max = 1, y_max = 1\<rparr>),
      (''b2'', \<lparr>x_min = 1, y_min = 0, x_max = 4, y_max = 1\<rparr>)]
   = Inr ([''b1'', ''b2''], [[25, 75], [50, 150]])
   \<and> sum_list ([[25, 75], [50, 150 :: real]] ! 0) = [100, 200] ! 0
   \<and> sum_list ([[25, 75], [50, 150 :: real]] ! 1) = [100, 200] ! 1"
  using load_conservation
    [where G = box_shapely and update_gdp_pop = False and substation_lv_i = "[''b1'', ''b2'']"
       and opsd_load = "[''ES'' \<mapsto> [100, 200]]"
       and nuts3_tbl = "[\<lparr>nuts3_index = ''ES111'', nuts3_country = ''ES'', nuts3_gdp = Some 2,
                       nuts3_pop = None,
                       nuts3_geometry = \<lparr>x_min = 0, y_min = 0, x_max = 4, y_max = 1\<rparr>\<rparr>]"
       and gdp_pop_tbl = "[]" and cntry = "''ES''"
       and grp = "[(''b1'', \<lparr>x_min = 0, y_min = 0, x_max = 1, y_max = 1\<rparr>),
                   (''b2'', \<lparr>x_min = 1, y_min = 0, x_max = 4, y_max = 1\<rparr>)]"
       and cols = "[''b1'', ''b2'']" and rows = "[[25, 75], [50, 150]]" and load = "[100, 200]"]
    upsample_national_example
  by simp



lemma upsample_factors_UA_MD:
  assumes "gdp_pop_n G grp (filter (\<lambda>r. nuts3_country r = cntry) nuts3_tbl) = Inr (gdp_n, pop_n)"
    and "cntry \<in> set [''UA'', ''MD'']"
    and "tbl = filter (\<lambda>r. nn_country r = cntry \<and> nn_bus r \<in> set substation_lv_i) gdp_pop_tbl"
    and "sum_list (map nn_gdp tbl) \<noteq> 0" and "sum_list (map nn_pop tbl) \<noteq> 0"
  shows "upsample_factors G update_gdp_pop substation_lv_i nuts3_tbl gdp_pop_tbl cntry grp
      = Inr (map nn_bus tbl, spec_factor (6 / 10) (4 / 10) (map nn_gdp tbl) (map nn_pop tbl))"
proof -
  have "weighted_factors (6 / 10) (4 / 10) (map nn_gdp tbl) (map nn_pop tbl)
        = Inr (spec_factor (6 / 10) (4 / 10) (map nn_gdp tbl) (map nn_pop tbl))"
    using assms by (intro weighted_factors_spec(1)) auto
  with assms show ?thesis by (auto simp: upsample_factors_def Let_def)
qed





section \<open>Properties of the storage duration of reservoir plants\<close>







end
